theory Spec2Isabelle
  imports Main "HOL-Library.Word"
begin

unbundle bit_operations_syntax

section \<open>Common vocabulary\<close>

text \<open>
  The C sources report failure through \<open>errno\<close>. Error numbers are the Linux ones.
\<close>

type_synonym errno = int
type_synonym byte = "8 word"

definition ENOMEM :: errno where "ENOMEM = 12"
definition EINVAL :: errno where "EINVAL = 22"
definition ENODATA :: errno where "ENODATA = 61"
definition ENOBUFS :: errno where "ENOBUFS = 105"

section \<open>Identity model (robinhood/id.h)\<close>

text \<open>
  \<open>struct rbh_id { const char *data; size_t size; }\<close>: \<open>size\<close> is "the number of bytes
  data points at", so the pointed-to bytes are a list and the size field is its length.
  An ID of size 0 stands for a filesystem root's parent (something that does not exist).
\<close>

record rbh_id =
  id_data :: "byte list"

definition id_size :: "rbh_id \<Rightarrow> nat" where
  "id_size i = length (id_data i)"

text \<open>
  The caller's view of \<open>char **buffer\<close> and \<open>size_t *bufsize\<close>: the backing bytes, the
  offset \<open>*buffer\<close> currently points at, and the number of bytes left from there.
\<close>

record id_buffer =
  buf_mem :: "byte list"
  buf_cursor :: nat
  buf_size :: nat

text \<open>
  Modelled from the spec: the body of \<open>rbh_id_copy\<close> (src/id.c) is missing, only its
  declaration and documentation are in robinhood/id.h. The spec and the header say: the
  content of \<open>src\<close> is stored in \<open>*buffer\<close>; on success \<open>*buffer\<close> is updated to point after
  the copied data and \<open>*bufsize\<close> is decremented by the number of bytes written; the call
  fails with ENOBUFS when \<open>*bufsize\<close> is less than the amount of data in \<open>src\<close>, leaving
  both untouched. The result pairs the return value (the error, or \<open>dest\<close>) with the
  buffer as the caller sees it afterwards.
\<close>

definition rbh_id_copy :: "rbh_id \<Rightarrow> id_buffer \<Rightarrow> (errno + rbh_id) \<times> id_buffer" where
  "rbh_id_copy src b =
     (if buf_size b < id_size src then (Inl ENOBUFS, b)
      else (Inr \<lparr>id_data = id_data src\<rparr>,
            b\<lparr>buf_mem := take (buf_cursor b) (buf_mem b) @ id_data src
                          @ drop (buf_cursor b + id_size src) (buf_mem b),
              buf_cursor := buf_cursor b + id_size src,
              buf_size := buf_size b - id_size src\<rparr>))"

section \<open>URI resolver (src/utils/uri.c)\<close>

text \<open>
  \<open>error(EXIT_FAILURE, errnum, format, ...)\<close> prints the formatted message, followed by
  the text of \<open>errnum\<close> when it is not 0, and exits: the resolution attempt ends there.
  \<open>Fatal errnum message\<close> is that outcome.
\<close>

datatype fatal = Fatal errno string

text \<open>
  Modelled from the spec: the headers robinhood/uri.h and robinhood/fsentry.h are
  missing. A raw URI is the split text (scheme, path, optional fragment), a URI is the
  backend type, the filesystem name and an ID (of size 0 when none is embedded), an
  fsentry carries the mask of its populated fields and its ID: the fields that uri.c reads.
\<close>

record rbh_raw_uri =
  raw_scheme :: string
  raw_path :: string
  raw_fragment :: "string option"

record rbh_uri =
  uri_backend :: string
  uri_fsname :: string
  uri_id :: rbh_id

record rbh_fsentry =
  fsentry_mask :: "32 word"
  fsentry_id :: rbh_id

text \<open>
  Plugins (\<open>'p\<close>) and backends (\<open>'b\<close>) are opaque handles. The functions the resolver
  calls live in other translation units; the environment gives their results, \<open>Inl e\<close>
  being the failure return (NULL or a non-zero code) with \<open>errno\<close> left at \<open>e\<close>.
  For \<open>rbh_backend_plugin_import\<close>, \<open>Inl 0\<close> is a failure that did not touch \<open>errno\<close>
  (which the caller zeroed before), and \<open>dlerror\<close> is what \<open>dlerror()\<close> returns then.
  \<open>RBH_FP_ID\<close> is the bit of the ID in an fsentry's mask.
\<close>

record ('p, 'b) uri_env =
  rbh_parse_raw_uri :: "string \<Rightarrow> errno + rbh_raw_uri"
  rbh_parse_uri :: "rbh_raw_uri \<Rightarrow> errno + rbh_uri"
  rbh_percent_decode :: "string \<Rightarrow> errno + string"
  rbh_backend_plugin_import :: "string \<Rightarrow> errno + 'p"
  dlerror :: "string option"
  rbh_backend_plugin_new :: "'p \<Rightarrow> string \<Rightarrow> errno + 'b"
  rbh_backend_fsentry_from_path :: "'b \<Rightarrow> string \<Rightarrow> errno + rbh_fsentry"
  rbh_backend_branch :: "'b \<Rightarrow> rbh_id \<Rightarrow> errno + 'b"
  RBH_FP_ID :: "32 word"

text \<open>The calls made on backends and plugins, in program order.\<close>

datatype ('p, 'b) uri_event =
    Import string
  | New 'p string
  | Resolve 'b string
  | Branch 'b rbh_id
  | Destroy 'b

type_synonym ('p, 'b) trace = "('p, 'b) uri_event list"

definition backend_plugin_import ::
  "('p, 'b) uri_env \<Rightarrow> string \<Rightarrow> ('p, 'b) trace \<Rightarrow> (fatal + 'p) \<times> ('p, 'b) trace" where
  "backend_plugin_import env name tr =
     (case rbh_backend_plugin_import env name of
        Inl e \<Rightarrow>
          (if e = 0
           then (Inl (Fatal 0 (''rbh_backend_plugin_import: ''
                                @ (case dlerror env of Some txt \<Rightarrow> txt | None \<Rightarrow> ''(null)''))),
                 tr @ [Import name])
           else (Inl (Fatal e ''rbh_backend_plugin_import''), tr @ [Import name]))
      | Inr plugin \<Rightarrow> (Inr plugin, tr @ [Import name]))"

definition backend_new ::
  "('p, 'b) uri_env \<Rightarrow> string \<Rightarrow> string \<Rightarrow> ('p, 'b) trace \<Rightarrow> (fatal + 'b) \<times> ('p, 'b) trace" where
  "backend_new env type fsname tr =
     (case backend_plugin_import env type tr of
        (Inl f, tr1) \<Rightarrow> (Inl f, tr1)
      | (Inr plugin, tr1) \<Rightarrow>
          (case rbh_backend_plugin_new env plugin fsname of
             Inl e \<Rightarrow> (Inl (Fatal e ''rbh_backend_plugin_new''), tr1 @ [New plugin fsname])
           | Inr backend \<Rightarrow> (Inr backend, tr1 @ [New plugin fsname])))"

text \<open>
  The tail shared by both branching arms: destroy the unbranched backend, then fail if
  the branch is NULL (with the \<open>errno\<close> the branch left, saved across the destroy).
\<close>

definition destroy_and_return ::
  "'b \<Rightarrow> errno + 'b \<Rightarrow> ('p, 'b) trace \<Rightarrow> (fatal + 'b) \<times> ('p, 'b) trace" where
  "destroy_and_return backend branch tr =
     (case branch of
        Inl e \<Rightarrow> (Inl (Fatal e ''rbh_backend_branch''), tr @ [Destroy backend])
      | Inr br \<Rightarrow> (Inr br, tr @ [Destroy backend]))"

definition backend_from_uri ::
  "('p, 'b) uri_env \<Rightarrow> rbh_uri \<Rightarrow> string option \<Rightarrow> ('p, 'b) trace
     \<Rightarrow> (fatal + 'b) \<times> ('p, 'b) trace" where
  "backend_from_uri env uri path tr =
     (case backend_new env (uri_backend uri) (uri_fsname uri) tr of
        (Inl f, tr1) \<Rightarrow> (Inl f, tr1)
      | (Inr backend, tr1) \<Rightarrow>
          (case path of
             Some p \<Rightarrow>
               (case rbh_percent_decode env p of
                  Inl e \<Rightarrow> (Inl (Fatal e ''rbh_percent_decode''), tr1)
                | Inr decoded \<Rightarrow>
                    (case rbh_backend_fsentry_from_path env backend decoded of
                       Inl e \<Rightarrow> (Inl (Fatal e ''rbh_backend_fsentry_from_path''),
                                 tr1 @ [Resolve backend decoded])
                     | Inr fsentry \<Rightarrow>
                         (if fsentry_mask fsentry AND RBH_FP_ID env = 0
                          then (Inl (Fatal ENODATA ''rbh_backend_fsentry_from_path''),
                                tr1 @ [Resolve backend decoded])
                          else destroy_and_return backend
                                 (rbh_backend_branch env backend (fsentry_id fsentry))
                                 (tr1 @ [Resolve backend decoded,
                                         Branch backend (fsentry_id fsentry)]))))
           | None \<Rightarrow>
               (if id_size (uri_id uri) \<noteq> 0
                then destroy_and_return backend
                       (rbh_backend_branch env backend (uri_id uri))
                       (tr1 @ [Branch backend (uri_id uri)])
                else (Inr backend, tr1))))"

definition backend_from_raw_uri ::
  "('p, 'b) uri_env \<Rightarrow> rbh_raw_uri \<Rightarrow> string option \<Rightarrow> ('p, 'b) trace
     \<Rightarrow> (fatal + 'b) \<times> ('p, 'b) trace" where
  "backend_from_raw_uri env raw_uri path tr =
     (case rbh_parse_uri env raw_uri of
        Inl e \<Rightarrow> (Inl (Fatal e ''rbh_parse_uri''), tr)
      | Inr uri \<Rightarrow> backend_from_uri env uri path tr)"

text \<open>
  \<open>raw_uri.fragment && raw_uri.fragment[0] != '['\<close>: the first byte of an empty fragment
  is the terminating NUL, which is not a bracket.
\<close>

definition fragment_is_path :: "string option \<Rightarrow> bool" where
  "fragment_is_path fragment =
     (case fragment of
        None \<Rightarrow> False
      | Some [] \<Rightarrow> True
      | Some (c # _) \<Rightarrow> c \<noteq> CHR ''['')"

definition rbh_backend_from_uri ::
  "('p, 'b) uri_env \<Rightarrow> string \<Rightarrow> ('p, 'b) trace \<Rightarrow> (fatal + 'b) \<times> ('p, 'b) trace" where
  "rbh_backend_from_uri env string tr =
     (case rbh_parse_raw_uri env string of
        Inl e \<Rightarrow> (Inl (Fatal e ''rbh_parse_raw_uri''), tr)
      | Inr raw_uri \<Rightarrow>
          (if fragment_is_path (raw_fragment raw_uri)
           then backend_from_raw_uri env (raw_uri\<lparr>raw_fragment := None\<rparr>)
                  (raw_fragment raw_uri) tr
           else backend_from_raw_uri env raw_uri None tr))"

section \<open>Value model\<close>

text \<open>
  Modelled from the spec: robinhood/value.h is missing. These are the variants of the
  tagged union \<open>struct rbh_value\<close> that the Lustre extractor builds. A string value
  holds the pointer returned by the arena, which is NULL (\<open>None\<close>) when the push failed
  and nobody checked. A pair's value is a pointer too.
\<close>

datatype rbh_value =
    Binary "byte list"
  | String "string option"
  | Int32 "32 word"
  | UInt32 "32 word"
  | UInt64 "64 word"
  | Sequence "rbh_value list"

record rbh_value_pair =
  pair_key :: string
  pair_value :: "rbh_value option"

section \<open>Lustre attribute extractor (src/backends/lustre/lustre.c)\<close>

subsection \<open>What the system answers for one entry\<close>

text \<open>
  The extractor queries Lustre, libc and the kernel about one file descriptor. The
  environment holds the answers. For a function that returns -1 (or NULL) and sets
  \<open>errno\<close>, \<open>Inl e\<close> is that failure with \<open>errno = e\<close>; for \<open>llapi_fd2fid\<close> and
  \<open>llapi_hsm_state_get_fd\<close>, which return a negated error number, \<open>Inl rc\<close> is the non-zero
  return code.
\<close>

record hsm_user_state =
  hus_states :: "32 word"
  hus_archive_id :: "32 word"

datatype lov_magic =
    LOV_USER_MAGIC_V1
  | LOV_USER_MAGIC_COMP_V1
  | LOV_USER_MAGIC_SEL
  | LOV_USER_MAGIC_V3
  | LOV_USER_MAGIC_SPECIFIC
  | LOV_USER_MAGIC_FOREIGN
  | LOV_MAGIC_OTHER

text \<open>
  The head of the \<open>lustre.lov\<close> extended attribute under its three C views:
  \<open>lmm_layout_gen\<close> of \<open>lov_user_md_v1\<close>/\<open>v3\<close> is 16 bits wide, \<open>lcm_layout_gen\<close> of
  \<open>lov_comp_md_v1\<close> 32 bits.
\<close>

record lov_user_md =
  lmm_magic :: lov_magic
  lmm_layout_gen :: "16 word"
  lcm_layout_gen :: "32 word"

record lmv_user_md =
  lum_stripe_count :: "32 word"
  lum_hash_type :: "32 word"
  lum_objects :: "32 word list"

text \<open>What the \<open>llapi_layout_*_get\<close> functions answer while a component is current.\<close>

record llapi_comp =
  comp_stripe_count :: "errno + 64 word"
  comp_stripe_size :: "errno + 64 word"
  comp_pattern :: "errno + 64 word"
  comp_flags :: "errno + 32 word"
  comp_pool_name :: "errno + string"
  comp_ost_index :: "64 word \<Rightarrow> errno + 64 word"
  comp_extent :: "errno + (64 word \<times> 64 word)"
  comp_mirror_id :: "errno + 32 word"

text \<open>
  A layout has at least one component: \<open>layout_first\<close> is current after
  \<open>llapi_layout_get_by_fd\<close>, and \<open>llapi_layout_comp_iterate\<close> visits \<open>layout_first\<close> and
  then \<open>layout_others\<close> in order, stopping at the first callback that does not return 0.
\<close>

record llapi_layout =
  layout_flags :: "errno + 32 word"
  layout_is_composite :: bool
  layout_mirror_count :: "errno + 16 word"
  layout_comp_use_last :: "errno option"
  layout_comp_id :: "errno + 32 word"
  layout_comp_use_first :: "errno option"
  layout_first :: llapi_comp
  layout_others :: "llapi_comp list"

text \<open>
  Modelled from the spec: \<open>rbh_sstack_push\<close> (src/sstack.c is missing) returns a
  reference into the arena or fails when the backing store cannot grow. \<open>sstack_push_fails n\<close>
  says whether the push that follows \<open>n\<close> earlier ones fails, and with which \<open>errno\<close>.
  \<open>alloc_fails n\<close> says the same of the heap (\<open>malloc\<close>, \<open>calloc\<close>, \<open>realloc\<close>).
\<close>

record lustre_env =
  llapi_fd2fid :: "int + byte list"
  llapi_hsm_state_get_fd :: "int + hsm_user_state"
  llapi_layout_get_by_fd :: "errno + llapi_layout"
  fgetxattr_lov :: "errno + lov_user_md"
  ioctl_lmv_getstripe :: "errno + lmv_user_md"
  llapi_file_fget_mdtidx :: "errno + 32 word"
  sstack_push_fails :: "nat \<Rightarrow> errno option"
  alloc_fails :: "nat \<Rightarrow> bool"

datatype lustre_call =
    Call_fd2fid
  | Call_hsm_state_get
  | Call_layout_get
  | Call_fgetxattr_lov
  | Call_lmv_getstripe
  | Call_fget_mdtidx

text \<open>
  A failed call returns -1 with \<open>errno\<close> at the given value. \<open>Fault\<close> is undefined
  behaviour: a write or read outside an array, a read of a cell never written, a NULL
  or mistyped value dereferenced, signed overflow.
\<close>

datatype failure = Errno errno | Fault

text \<open>
  The thread-local variables of the file (\<open>is_dir\<close>, \<open>is_reg\<close>, \<open>is_symlink\<close>, and the
  arena \<open>_values\<close> as the number of pushes made), those of the POSIX backend that the
  retention pass reads (\<open>_inode_xattrs\<close>, whose length is \<open>*_inode_xattrs_count\<close>;
  their declarations in posix_internal.h are missing),
  \<open>errno\<close>, the caller's \<open>pairs\<close> array, and the log of the queries made.
\<close>

record lustre_state =
  st_errno :: errno
  st_pushes :: nat
  st_allocs :: nat
  st_calls :: "lustre_call list"
  st_pairs :: "nat \<rightharpoonup> rbh_value_pair"
  st_inode_xattrs :: "rbh_value_pair list"
  is_dir :: bool
  is_reg :: bool
  is_symlink :: bool

definition and_then :: "failure + 'a \<Rightarrow> ('a \<Rightarrow> failure + 'b) \<Rightarrow> failure + 'b" where
  "and_then r k = (case r of Inl f \<Rightarrow> Inl f | Inr v \<Rightarrow> k v)"

definition getter :: "errno + 'a \<Rightarrow> failure + 'a" where
  "getter r = (case r of Inl e \<Rightarrow> Inl (Errno e) | Inr v \<Rightarrow> Inr v)"

definition called :: "lustre_call \<Rightarrow> lustre_state \<Rightarrow> lustre_state" where
  "called c s = s\<lparr>st_calls := st_calls s @ [c]\<rparr>"

text \<open>
  Modelled from the spec: \<open>rbh_sstack_push\<close> (src/sstack.c is missing) pushes onto the
  arena and returns a reference, or fails with \<open>errno\<close> set when the arena cannot take
  the data; a failed push leaves the arena usable. Values hold their payload here, so
  only the success of the push and its count are kept.
\<close>

definition rbh_sstack_push :: "lustre_env \<Rightarrow> lustre_state \<Rightarrow> bool \<times> lustre_state" where
  "rbh_sstack_push env s =
     (case sstack_push_fails env (st_pushes s) of
        None \<Rightarrow> (True, s\<lparr>st_pushes := Suc (st_pushes s)\<rparr>)
      | Some e \<Rightarrow> (False, s\<lparr>st_pushes := Suc (st_pushes s), st_errno := e\<rparr>))"

definition heap_alloc :: "lustre_env \<Rightarrow> lustre_state \<Rightarrow> bool \<times> lustre_state" where
  "heap_alloc env s =
     (if alloc_fails env (st_allocs s)
      then (False, s\<lparr>st_allocs := Suc (st_allocs s), st_errno := ENOMEM\<rparr>)
      else (True, s\<lparr>st_allocs := Suc (st_allocs s)\<rparr>))"

subsection \<open>Filling pairs\<close>

text \<open>
  Each \<open>fill_*\<close> function returns its return code, the pair it was given as the call
  leaves it (\<open>None\<close> when the pair was not touched), and the state.
\<close>

definition fill_pair ::
  "lustre_env \<Rightarrow> string \<Rightarrow> rbh_value \<Rightarrow> lustre_state
     \<Rightarrow> int \<times> rbh_value_pair option \<times> lustre_state" where
  "fill_pair env key v s =
     (case rbh_sstack_push env s of
        (True, s') \<Rightarrow> (0, Some \<lparr>pair_key = key, pair_value = Some v\<rparr>, s')
      | (False, s') \<Rightarrow> (-1, Some \<lparr>pair_key = key, pair_value = None\<rparr>, s'))"

definition fill_binary_pair ::
  "lustre_env \<Rightarrow> string \<Rightarrow> byte list \<Rightarrow> lustre_state
     \<Rightarrow> int \<times> rbh_value_pair option \<times> lustre_state" where
  "fill_binary_pair env key bytes s =
     (case rbh_sstack_push env s of
        (False, s') \<Rightarrow> (-1, None, s')
      | (True, s') \<Rightarrow> fill_pair env key (Binary bytes) s')"

definition fill_string_pair ::
  "lustre_env \<Rightarrow> string \<Rightarrow> string \<Rightarrow> lustre_state
     \<Rightarrow> int \<times> rbh_value_pair option \<times> lustre_state" where
  "fill_string_pair env key str s =
     (case rbh_sstack_push env s of
        (False, s') \<Rightarrow> (-1, None, s')
      | (True, s') \<Rightarrow> fill_pair env key (String (Some str)) s')"

definition fill_int32_pair ::
  "lustre_env \<Rightarrow> string \<Rightarrow> 32 word \<Rightarrow> lustre_state
     \<Rightarrow> int \<times> rbh_value_pair option \<times> lustre_state" where
  "fill_int32_pair env key integer s = fill_pair env key (Int32 integer) s"

definition fill_uint32_pair ::
  "lustre_env \<Rightarrow> string \<Rightarrow> 32 word \<Rightarrow> lustre_state
     \<Rightarrow> int \<times> rbh_value_pair option \<times> lustre_state" where
  "fill_uint32_pair env key integer s = fill_pair env key (UInt32 integer) s"

definition fill_uint64_pair ::
  "lustre_env \<Rightarrow> string \<Rightarrow> 64 word \<Rightarrow> lustre_state
     \<Rightarrow> int \<times> rbh_value_pair option \<times> lustre_state" where
  "fill_uint64_pair env key integer s = fill_pair env key (UInt64 integer) s"

definition fill_sequence_pair ::
  "lustre_env \<Rightarrow> string \<Rightarrow> rbh_value list \<Rightarrow> lustre_state
     \<Rightarrow> int \<times> rbh_value_pair option \<times> lustre_state" where
  "fill_sequence_pair env key vals s =
     (case rbh_sstack_push env s of
        (False, s') \<Rightarrow> (-1, None, s')
      | (True, s') \<Rightarrow> fill_pair env key (Sequence vals) s')"

text \<open>
  \<open>rc = fill_...(..., &pairs[idx]); if (rc) return -1;\<close>: the pair lands in the caller's
  array at \<open>idx\<close>, and a non-zero code ends the extractor with the \<open>errno\<close> of the push.
\<close>

definition stored ::
  "nat \<Rightarrow> int \<times> rbh_value_pair option \<times> lustre_state \<Rightarrow> failure + lustre_state" where
  "stored idx r =
     (case r of (rc, p, s) \<Rightarrow>
        if rc \<noteq> 0 then Inl (Errno (st_errno s))
        else Inr (case p of None \<Rightarrow> s | Some pair \<Rightarrow> s\<lparr>st_pairs := (st_pairs s)(idx \<mapsto> pair)\<rparr>))"

subsection \<open>FID and HSM\<close>

definition xattrs_get_fid ::
  "lustre_env \<Rightarrow> nat \<Rightarrow> lustre_state \<Rightarrow> failure + (nat \<times> lustre_state)" where
  "xattrs_get_fid env pairs s =
     (case llapi_fd2fid env of
        Inl rc \<Rightarrow> Inl (Errno (- rc))
      | Inr fid \<Rightarrow>
          and_then (stored pairs (fill_binary_pair env ''fid'' fid (called Call_fd2fid s)))
            (\<lambda>s1. Inr (1, s1)))"

definition xattrs_get_hsm ::
  "lustre_env \<Rightarrow> nat \<Rightarrow> lustre_state \<Rightarrow> failure + (nat \<times> lustre_state)" where
  "xattrs_get_hsm env pairs s =
     (if \<not> is_reg s then Inr (0, s)
      else
        (case llapi_hsm_state_get_fd env of
           Inl rc \<Rightarrow> Inl (Errno (- rc))
         | Inr hus \<Rightarrow>
             and_then (stored pairs
                         (fill_uint32_pair env ''hsm_state'' (hus_states hus)
                            (called Call_hsm_state_get s)))
               (\<lambda>s1. and_then (stored (pairs + 1)
                                  (fill_uint32_pair env ''hsm_archive_id''
                                     (hus_archive_id hus) s1))
                 (\<lambda>s2. Inr (2, s2)))))"

subsection \<open>Layout: the per-component arrays and the OST workspace\<close>

text \<open>
  \<open>struct iterator_data\<close>. The eight per-component pointers point into one block
  allocated by \<open>init_iterator_data\<close>: \<open>arr\<close> is that block and a pointer is an offset
  into it (\<open>None\<close> is NULL). \<open>ost\<close> is the separately allocated, growable OST array.
  A cell is \<open>None\<close> until it is written. The \<open>int\<close> fields are C ints.
\<close>

record iterator_data =
  arr :: "rbh_value option list"
  stripe_count :: "nat option"
  stripe_size :: "nat option"
  mirror_id :: "nat option"
  pattern :: "nat option"
  comp_begin :: "nat option"
  flags :: "nat option"
  pool :: "nat option"
  comp_end :: "nat option"
  ost :: "rbh_value option list"
  comp_index :: int
  ost_size :: int
  ost_idx :: int

definition INT_MAX :: int where "INT_MAX = 2 ^ 31 - 1"
definition INT_MIN :: int where "INT_MIN = - (2 ^ 31)"

definition LCME_FL_INIT :: "32 word" where "LCME_FL_INIT = 0x10"

definition create_uint64_value :: "64 word \<Rightarrow> rbh_value" where
  "create_uint64_value integer = UInt64 integer"

definition create_uint32_value :: "32 word \<Rightarrow> rbh_value" where
  "create_uint32_value integer = UInt32 integer"

definition create_string_value ::
  "lustre_env \<Rightarrow> string \<Rightarrow> lustre_state \<Rightarrow> rbh_value \<times> lustre_state" where
  "create_string_value env str s =
     (case rbh_sstack_push env s of
        (True, s') \<Rightarrow> (String (Some str), s')
      | (False, s') \<Rightarrow> (String None, s'))"

text \<open>\<open>ptr[index] = v\<close> for a pointer into the block.\<close>

definition set_cell ::
  "nat option \<Rightarrow> int \<Rightarrow> rbh_value \<Rightarrow> iterator_data \<Rightarrow> failure + iterator_data" where
  "set_cell ptr index v d =
     (case ptr of
        None \<Rightarrow> Inl Fault
      | Some off \<Rightarrow>
          if 0 \<le> index \<and> off + nat index < length (arr d)
          then Inr (d\<lparr>arr := (arr d)[off + nat index := Some v]\<rparr>)
          else Inl Fault)"

text \<open>\<open>data->ost[data->ost_idx++] = v\<close>.\<close>

definition ost_append :: "rbh_value \<Rightarrow> iterator_data \<Rightarrow> failure + iterator_data" where
  "ost_append v d =
     (if 0 \<le> ost_idx d \<and> nat (ost_idx d) < length (ost d) \<and> ost_idx d < INT_MAX
      then Inr (d\<lparr>ost := (ost d)[nat (ost_idx d) := Some v], ost_idx := ost_idx d + 1\<rparr>)
      else Inl Fault)"

text \<open>
  \<open>realloc\<close> keeps the cells that fit and leaves the new ones unwritten. A request for
  no element, or for a negative count (converted to an enormous \<open>size_t\<close>), returns NULL.
\<close>

definition iter_data_ost_try_resize ::
  "lustre_env \<Rightarrow> iterator_data \<Rightarrow> int \<Rightarrow> lustre_state
     \<Rightarrow> failure + (iterator_data \<times> lustre_state)" where
  "iter_data_ost_try_resize env d ost_len s =
     (if ost_idx d + ost_len < INT_MIN \<or> INT_MAX < ost_idx d + ost_len then Inl Fault
      else if ost_idx d + ost_len > ost_size d then
        (if ost_size d + ost_len < INT_MIN \<or> INT_MAX < ost_size d + ost_len then Inl Fault
         else
           (case heap_alloc env s of
              (False, s') \<Rightarrow> Inl (Errno (- ENOMEM))
            | (True, s') \<Rightarrow>
                if ost_size d + ost_len \<le> 0 then Inl (Errno (- ENOMEM))
                else Inr (d\<lparr>ost := take (nat (ost_size d + ost_len))
                                      (ost d @ replicate (nat (ost_size d + ost_len)) None),
                            ost_size := ost_size d + ost_len\<rparr>, s')))
      else Inr (d, s))"

text \<open>
  \<open>for (i = 0; i < stripe_count; ++i)\<close> over \<open>llapi_layout_ost_index_get\<close>: EINVAL ends
  the component's list, any other failure ends the extraction.
\<close>

function ost_loop ::
  "(64 word \<Rightarrow> errno + 64 word) \<Rightarrow> 64 word \<Rightarrow> 64 word \<Rightarrow> iterator_data \<Rightarrow> lustre_state
     \<Rightarrow> failure + (iterator_data \<times> lustre_state)" where
  "ost_loop ost_index_get stripe_cnt i d s =
     (if i < stripe_cnt then
        (case ost_index_get i of
           Inl e \<Rightarrow> if e = EINVAL then Inr (d, s\<lparr>st_errno := EINVAL\<rparr>) else Inl (Errno e)
         | Inr tmp \<Rightarrow>
             (case ost_append (create_uint64_value tmp) d of
                Inl f \<Rightarrow> Inl f
              | Inr d' \<Rightarrow> ost_loop ost_index_get stripe_cnt (i + 1) d' s))
      else Inr (d, s))"
  by pat_completeness auto
termination
  by (relation "measure (\<lambda>(g, stripe_cnt, i, d, s). unat stripe_cnt - unat i)")
     (auto, unat_arith)

declare ost_loop.simps [simp del]

text \<open>
  The \<open>layout\<close> handle with a component current is that component's answers, with
  \<open>is_composite\<close> for \<open>llapi_layout_is_composite(layout)\<close>. \<open>ost_len\<close> is an \<open>int\<close>
  taking a \<open>uint64_t\<close>: the low 32 bits, read as signed.
\<close>

definition fill_iterator_data ::
  "lustre_env \<Rightarrow> bool \<Rightarrow> llapi_comp \<Rightarrow> iterator_data \<Rightarrow> int \<Rightarrow> lustre_state
     \<Rightarrow> failure + (iterator_data \<times> lustre_state)" where
  "fill_iterator_data env is_composite layout d index s =
     and_then (getter (comp_stripe_count layout)) (\<lambda>stripe_cnt.
     and_then (set_cell (stripe_count d) index (create_uint64_value stripe_cnt) d) (\<lambda>d1.
     and_then (getter (comp_stripe_size layout)) (\<lambda>tmp.
     and_then (set_cell (stripe_size d1) index (create_uint64_value tmp) d1) (\<lambda>d2.
     and_then (getter (comp_pattern layout)) (\<lambda>tmp.
     and_then (set_cell (pattern d2) index (create_uint64_value tmp) d2) (\<lambda>d3.
     and_then (getter (comp_flags layout)) (\<lambda>fl.
     and_then (set_cell (flags d3) index (create_uint32_value fl) d3) (\<lambda>d4.
     and_then (getter (comp_pool_name layout)) (\<lambda>pool_tmp.
       (case create_string_value env pool_tmp s of (pool_value, s1) \<Rightarrow>
     and_then (set_cell (pool d4) index pool_value d4) (\<lambda>d5.
       (let is_init_or_not_comp = (fl = LCME_FL_INIT \<or> \<not> is_composite);
            ost_len = (if is_init_or_not_comp then sint (ucast stripe_cnt :: 32 word) else 1)
        in
     and_then (iter_data_ost_try_resize env d5 ost_len s1) (\<lambda>(d6, s2).
       if is_init_or_not_comp then ost_loop (comp_ost_index layout) stripe_cnt 0 d6 s2
       else and_then (ost_append (create_uint64_value (- 1)) d6) (\<lambda>d7.
            Inr (d7, s2)))))))))))))))"

definition xattrs_layout_iterator ::
  "lustre_env \<Rightarrow> llapi_comp \<Rightarrow> iterator_data \<times> lustre_state
     \<Rightarrow> failure + (iterator_data \<times> lustre_state)" where
  "xattrs_layout_iterator env layout cbdata =
     (case cbdata of (d, s) \<Rightarrow>
     and_then (fill_iterator_data env True layout d (comp_index d) s) (\<lambda>(d1, s1).
     and_then (getter (comp_extent layout)) (\<lambda>(b, e).
     and_then (set_cell (comp_begin d1) (comp_index d1) (create_uint64_value b) d1) (\<lambda>d2.
     and_then (set_cell (comp_end d2) (comp_index d2) (create_uint64_value e) d2) (\<lambda>d3.
     and_then (getter (comp_mirror_id layout)) (\<lambda>m.
     and_then (set_cell (mirror_id d3) (comp_index d3) (create_uint32_value m) d3) (\<lambda>d4.
     Inr (d4\<lparr>comp_index := comp_index d4 + 1\<rparr>, s1))))))))"

text \<open>
  Lustre's \<open>llapi_layout_comp_iterate\<close>: the callback runs on each component in order and
  the first non-zero return stops the walk and is returned.
\<close>

fun llapi_layout_comp_iterate ::
  "(llapi_comp \<Rightarrow> 'a \<Rightarrow> failure + 'a) \<Rightarrow> llapi_comp list \<Rightarrow> 'a \<Rightarrow> failure + 'a" where
  "llapi_layout_comp_iterate cb [] cbdata = Inr cbdata"
| "llapi_layout_comp_iterate cb (c # cs) cbdata =
     (case cb c cbdata of
        Inl f \<Rightarrow> Inl f
      | Inr cbdata' \<Rightarrow> llapi_layout_comp_iterate cb cs cbdata')"

definition layout_get_nb_comp :: "llapi_layout \<Rightarrow> failure + 32 word" where
  "layout_get_nb_comp layout =
     (case layout_comp_use_last layout of
        Some e \<Rightarrow> Inl (Errno e)
      | None \<Rightarrow>
          and_then (getter (layout_comp_id layout)) (\<lambda>nb_comp.
            (case layout_comp_use_first layout of
               Some e \<Rightarrow> Inl (Errno e)
             | None \<Rightarrow> Inr nb_comp)))"

text \<open>
  \<open>nb_xattrs * length\<close> and the \<open>k * length\<close> of the slice addresses are \<open>unsigned int\<close>
  products (\<open>length\<close> is a \<open>uint32_t\<close>), so they wrap at 32 bits; \<open>ost_size = length\<close>
  converts to \<open>int\<close>.
\<close>

definition init_iterator_data ::
  "lustre_env \<Rightarrow> iterator_data \<Rightarrow> 32 word \<Rightarrow> nat \<Rightarrow> lustre_state
     \<Rightarrow> failure + (iterator_data \<times> lustre_state)" where
  "init_iterator_data env d len nb_xattrs s =
     (case heap_alloc env s of
        (False, s1) \<Rightarrow> Inl (Errno (st_errno s1))
      | (True, s1) \<Rightarrow>
          (let d1 = d\<lparr>arr := replicate (unat (word_of_nat nb_xattrs * len)) None,
                      stripe_count := Some 0,
                      stripe_size := Some (unat (1 * len)),
                      pattern := Some (unat (2 * len)),
                      flags := Some (unat (3 * len)),
                      pool := Some (unat (4 * len))\<rparr>;
               d2 = (if 6 \<le> nb_xattrs
                     then d1\<lparr>mirror_id := Some (unat (5 * len)),
                             comp_begin := Some (unat (6 * len)),
                             comp_end := Some (unat (7 * len))\<rparr>
                     else d1)
           in case heap_alloc env s1 of
                (False, s2) \<Rightarrow> Inl (Errno (- ENOMEM))
              | (True, s2) \<Rightarrow>
                  Inr (d2\<lparr>ost := replicate (unat len) None,
                          ost_size := sint len,
                          ost_idx := 0,
                          comp_index := 0\<rparr>, s2)))"

text \<open>The \<open>count\<close> cells that \<open>ptr\<close> points at, as \<open>rbh_sstack_push\<close> copies them.\<close>

definition read_cells ::
  "rbh_value option list \<Rightarrow> nat option \<Rightarrow> int \<Rightarrow> failure + rbh_value list" where
  "read_cells cells ptr count =
     (case ptr of
        None \<Rightarrow> Inl Fault
      | Some off \<Rightarrow>
          if 0 \<le> count \<and> off + nat count \<le> length cells
          then (case those (take (nat count) (drop off cells)) of
                  None \<Rightarrow> Inl Fault
                | Some vals \<Rightarrow> Inr vals)
          else Inl Fault)"

fun fill_sequences ::
  "lustre_env \<Rightarrow> iterator_data \<Rightarrow> (string \<times> nat option) list \<Rightarrow> nat \<Rightarrow> nat \<Rightarrow> lustre_state
     \<Rightarrow> failure + (nat \<times> lustre_state)" where
  "fill_sequences env d [] pairs subcount s = Inr (subcount, s)"
| "fill_sequences env d ((key, vals) # rest) pairs subcount s =
     (case read_cells (arr d) vals (comp_index d) of
        Inl f \<Rightarrow> Inl f
      | Inr items \<Rightarrow>
          (case stored (pairs + subcount) (fill_sequence_pair env key items s) of
             Inl f \<Rightarrow> Inl f
           | Inr s1 \<Rightarrow> fill_sequences env d rest pairs (Suc subcount) s1))"

definition xattrs_fill_layout ::
  "lustre_env \<Rightarrow> iterator_data \<Rightarrow> nat \<Rightarrow> nat \<Rightarrow> lustre_state
     \<Rightarrow> failure + (nat \<times> lustre_state)" where
  "xattrs_fill_layout env d nb_xattrs pairs s =
     and_then (fill_sequences env d
                 (take nb_xattrs
                    [(''stripe_count'', stripe_count d), (''stripe_size'', stripe_size d),
                     (''pattern'', pattern d), (''comp_flags'', flags d), (''pool'', pool d),
                     (''mirror_id'', mirror_id d), (''begin'', comp_begin d),
                     (''end'', comp_end d)])
                 pairs 0 s) (\<lambda>(subcount, s1).
     and_then (read_cells (ost d) (Some 0) (ost_idx d)) (\<lambda>items.
     and_then (stored (pairs + subcount) (fill_sequence_pair env ''ost'' items s1)) (\<lambda>s2.
     Inr (Suc subcount, s2))))"

subsection \<open>Layout: the extractor\<close>

text \<open>The \<open>switch (magic)\<close>: the name of the magic number and the layout generation.\<close>

fun magic_and_gen :: "lov_user_md \<Rightarrow> (string \<times> 32 word) option" where
  "magic_and_gen lum =
     (case lmm_magic lum of
        LOV_USER_MAGIC_V1 \<Rightarrow> Some (''LOV_USER_MAGIC_V1'', ucast (lmm_layout_gen lum))
      | LOV_USER_MAGIC_COMP_V1 \<Rightarrow> Some (''LOV_USER_MAGIC_COMP_V1'', lcm_layout_gen lum)
      | LOV_USER_MAGIC_SEL \<Rightarrow> Some (''LOV_USER_MAGIC_SEL'', lcm_layout_gen lum)
      | LOV_USER_MAGIC_V3 \<Rightarrow> Some (''LOV_USER_MAGIC_V3'', ucast (lmm_layout_gen lum))
      | LOV_USER_MAGIC_SPECIFIC \<Rightarrow> Some (''LOV_USER_MAGIC_SPECIFIC'', ucast (lmm_layout_gen lum))
      | LOV_USER_MAGIC_FOREIGN \<Rightarrow> Some (''LOV_USER_MAGIC_FOREIGN'', - 1)
      | LOV_MAGIC_OTHER \<Rightarrow> None)"

definition xattrs_get_magic_and_gen ::
  "lustre_env \<Rightarrow> nat \<Rightarrow> lustre_state \<Rightarrow> failure + (nat \<times> lustre_state)" where
  "xattrs_get_magic_and_gen env pairs s =
     and_then (getter (fgetxattr_lov env)) (\<lambda>lov_buf.
       (case magic_and_gen lov_buf of
          None \<Rightarrow> Inl (Errno EINVAL)
        | Some (magic_str, gen) \<Rightarrow>
            and_then (stored pairs
                        (fill_string_pair env ''magic'' magic_str
                           (called Call_fgetxattr_lov s))) (\<lambda>s1.
            and_then (stored (pairs + 1) (fill_uint32_pair env ''gen'' gen s1)) (\<lambda>s2.
            Inr (2, s2)))))"

text \<open>\<open>struct iterator_data data = { .comp_index = 0 }\<close>: every other field is zero too.\<close>

definition iterator_data_zero :: iterator_data where
  "iterator_data_zero =
     \<lparr>arr = [], stripe_count = None, stripe_size = None, mirror_id = None, pattern = None,
      comp_begin = None, flags = None, pool = None, comp_end = None, ost = [],
      comp_index = 0, ost_size = 0, ost_idx = 0\<rparr>"

text \<open>
  The body after the layout was obtained. The cleanup at \<open>free_data\<close> and \<open>err\<close>
  restores \<open>errno\<close>, so a failure returns -1 with the \<open>errno\<close> of the failing step and a
  success leaves \<open>errno\<close> as it was.
\<close>

definition xattrs_get_layout ::
  "lustre_env \<Rightarrow> nat \<Rightarrow> lustre_state \<Rightarrow> failure + (nat \<times> lustre_state)" where
  "xattrs_get_layout env pairs s =
     (if is_symlink s then Inr (0, s)
      else
        and_then (getter (llapi_layout_get_by_fd env)) (\<lambda>layout.
        and_then (getter (layout_flags layout)) (\<lambda>fl.
        and_then (stored pairs (fill_uint32_pair env ''flags'' fl (called Call_layout_get s)))
          (\<lambda>s1.
        and_then (if is_reg s1 then xattrs_get_magic_and_gen env (pairs + 1) s1
                  else Inr (0, s1)) (\<lambda>(rc, s2).
        and_then (if layout_is_composite layout then
                    and_then (getter (layout_mirror_count layout)) (\<lambda>mirror_count.
                    and_then (stored (pairs + (1 + rc))
                                (fill_uint32_pair env ''mirror_count'' (ucast mirror_count) s2))
                      (\<lambda>s3.
                    and_then (layout_get_nb_comp layout) (\<lambda>nb_comp.
                    Inr (1 + rc + 1, nb_comp, 5 + 3, s3))))
                  else Inr (1 + rc, 1, 5, s2)) (\<lambda>(subcount, nb_comp, nb_xattrs, s3).
        and_then (init_iterator_data env iterator_data_zero nb_comp nb_xattrs s3)
          (\<lambda>(d, s4).
        and_then (if layout_is_composite layout
                  then llapi_layout_comp_iterate (xattrs_layout_iterator env)
                         (layout_first layout # layout_others layout) (d, s4)
                  else fill_iterator_data env False (layout_first layout) d 0 s4)
          (\<lambda>(d1, s5).
        and_then (xattrs_fill_layout env d1 nb_xattrs (pairs + subcount) s5) (\<lambda>(rc, s6).
        Inr (subcount + rc, s6))))))))))"

subsection \<open>MDT information\<close>

definition xattrs_get_mdt_info ::
  "lustre_env \<Rightarrow> nat \<Rightarrow> lustre_state \<Rightarrow> failure + (nat \<times> lustre_state)" where
  "xattrs_get_mdt_info env pairs s =
     (if is_dir s then
        (case ioctl_lmv_getstripe env of
           Inl e \<Rightarrow>
             if e = ENODATA then Inr (0, (called Call_lmv_getstripe s)\<lparr>st_errno := ENODATA\<rparr>)
             else Inl (Errno e)
         | Inr lum \<Rightarrow>
             (case heap_alloc env (called Call_lmv_getstripe s) of
                (False, s1) \<Rightarrow> Inl (Errno (st_errno s1))
              | (True, s1) \<Rightarrow>
                  if length (lum_objects lum) < unat (lum_stripe_count lum) then Inl Fault
                  else
                    and_then (stored pairs
                                (fill_sequence_pair env ''mdt_idx''
                                   (map create_uint32_value
                                      (take (unat (lum_stripe_count lum)) (lum_objects lum)))
                                   s1)) (\<lambda>s2.
                    and_then (stored (pairs + 1)
                                (fill_uint32_pair env ''mdt_hash'' (lum_hash_type lum) s2))
                      (\<lambda>s3.
                    and_then (stored (pairs + 2)
                                (fill_uint32_pair env ''mdt_count'' (lum_stripe_count lum) s3))
                      (\<lambda>s4.
                    Inr (3, s4))))))
      else if \<not> is_symlink s then
        and_then (getter (llapi_file_fget_mdtidx env)) (\<lambda>mdt.
        and_then (stored pairs
                    (fill_int32_pair env ''mdt_index'' mdt (called Call_fget_mdtidx s)))
          (\<lambda>s1.
        Inr (1, s1)))
      else Inr (0, s))"

subsection \<open>Retention\<close>

definition XATTR_CCC_EXPIRES_AT :: string where
  "XATTR_CCC_EXPIRES_AT = ''user.ccc_expires_at''"

definition UINT64_MAX_STR_LEN :: nat where
  "UINT64_MAX_STR_LEN = 22"

definition ERANGE :: errno where "ERANGE = 34"

text \<open>
  libc's \<open>strtoul(nptr, &end, 10)\<close> on the bytes of a C string (the terminating NUL
  excluded), with a 64-bit \<open>unsigned long\<close>: white space is skipped, an optional sign is
  read, then the longest run of decimal digits. The result is the value (negated in the
  unsigned type after a minus sign), the offset of \<open>end\<close> from \<open>nptr\<close>, and whether
  \<open>errno\<close> was set to ERANGE (the value does not fit, and ULONG_MAX is returned).
  Without a digit nothing is converted: the value is 0 and \<open>end\<close> is \<open>nptr\<close>.
\<close>

definition isspace :: "byte \<Rightarrow> bool" where
  "isspace c = (c = 0x20 \<or> (0x09 \<le> c \<and> c \<le> 0x0D))"

definition isdigit :: "byte \<Rightarrow> bool" where
  "isdigit c = (0x30 \<le> c \<and> c \<le> 0x39)"

definition decimal :: "byte list \<Rightarrow> int" where
  "decimal digits = foldl (\<lambda>acc c. 10 * acc + (uint c - 48)) 0 digits"

definition strtoul :: "byte list \<Rightarrow> 64 word \<times> nat \<times> bool" where
  "strtoul nptr =
     (let blanks = takeWhile isspace nptr;
          rest = dropWhile isspace nptr;
          minus = (case rest of [] \<Rightarrow> False | c # _ \<Rightarrow> c = 0x2D);
          plus = (case rest of [] \<Rightarrow> False | c # _ \<Rightarrow> c = 0x2B);
          body = (if minus \<or> plus then tl rest else rest);
          digits = takeWhile isdigit body;
          consumed = length blanks + (if minus \<or> plus then 1 else 0) + length digits
      in if digits = [] then (0, 0, False)
         else if 2 ^ 64 \<le> decimal digits then (- 1, consumed, True)
         else if minus then (- word_of_int (decimal digits), consumed, False)
         else (word_of_int (decimal digits), consumed, False))"

text \<open>
  The loop over \<open>_inode_xattrs\<close> from index \<open>i\<close> on; \<open>rest\<close> is the part of the array
  not yet visited. \<open>tmp\<close> is the value's bytes followed by a NUL, so as a C string it
  stops at the first NUL byte. The return code of \<open>fill_uint64_pair\<close> is not looked at.
\<close>

fun retention_loop ::
  "lustre_env \<Rightarrow> rbh_value_pair list \<Rightarrow> nat \<Rightarrow> lustre_state \<Rightarrow> failure + lustre_state" where
  "retention_loop env [] i s = Inr s"
| "retention_loop env (p # rest) i s =
     (if pair_key p \<noteq> XATTR_CCC_EXPIRES_AT then retention_loop env rest (Suc i) s
      else
        (case pair_value p of
           Some (Binary bytes) \<Rightarrow>
             if UINT64_MAX_STR_LEN \<le> length bytes then retention_loop env rest (Suc i) s
             else
               (let tmp = takeWhile (\<lambda>c. c \<noteq> 0) bytes in
                case strtoul tmp of (result, end_off, erange) \<Rightarrow>
                  (let s1 = (if erange then s\<lparr>st_errno := ERANGE\<rparr> else s) in
                   if st_errno s1 \<noteq> 0 \<or> (result = 0 \<and> end_off = 0) \<or> end_off \<noteq> length tmp
                   then Inr s1
                   else
                     (case fill_uint64_pair env (pair_key p) result s1 of
                        (rc, Some new_pair, s2) \<Rightarrow>
                          Inr (s2\<lparr>st_inode_xattrs := (st_inode_xattrs s2)[i := new_pair]\<rparr>)
                      | (rc, None, s2) \<Rightarrow> Inl Fault)))
         | _ \<Rightarrow> Inl Fault))"

definition xattrs_get_retention :: "lustre_env \<Rightarrow> lustre_state \<Rightarrow> failure + lustre_state" where
  "xattrs_get_retention env s = retention_loop env (st_inode_xattrs s) 0 s"

subsection \<open>The callback\<close>

definition S_ISLNK :: "16 word \<Rightarrow> bool" where
  "S_ISLNK m = (m AND 0xF000 = 0xA000)"

definition S_ISDIR :: "16 word \<Rightarrow> bool" where
  "S_ISDIR m = (m AND 0xF000 = 0x4000)"

definition S_ISREG :: "16 word \<Rightarrow> bool" where
  "S_ISREG m = (m AND 0xF000 = 0x8000)"

definition xattrs_funcs ::
  "lustre_env \<Rightarrow> (nat \<Rightarrow> lustre_state \<Rightarrow> failure + (nat \<times> lustre_state)) list" where
  "xattrs_funcs env =
     [xattrs_get_fid env, xattrs_get_hsm env, xattrs_get_layout env, xattrs_get_mdt_info env]"

text \<open>
  \<open>subcount = xattrs_funcs[i](fd, &pairs[count]); if (subcount == -1) return -1;
  count += subcount;\<close>
\<close>

fun xattrs_funcs_loop ::
  "(nat \<Rightarrow> lustre_state \<Rightarrow> failure + (nat \<times> lustre_state)) list \<Rightarrow> nat \<Rightarrow> lustre_state
     \<Rightarrow> failure + (nat \<times> lustre_state)" where
  "xattrs_funcs_loop [] count s = Inr (count, s)"
| "xattrs_funcs_loop (f # fs) count s =
     (case f count s of
        Inl e \<Rightarrow> Inl e
      | Inr (subcount, s1) \<Rightarrow> xattrs_funcs_loop fs (count + subcount) s1)"

definition lustre_ns_xattrs_callback ::
  "lustre_env \<Rightarrow> 16 word \<Rightarrow> lustre_state \<Rightarrow> failure + (nat \<times> lustre_state)" where
  "lustre_ns_xattrs_callback env mode s =
     and_then (xattrs_funcs_loop (xattrs_funcs env) 0
                 (s\<lparr>is_symlink := S_ISLNK mode, is_dir := S_ISDIR mode,
                    is_reg := S_ISREG mode\<rparr>)) (\<lambda>(count, s1).
     and_then (xattrs_get_retention env s1) (\<lambda>s2.
     Inr (count, s2)))"

section \<open>The placement list as discovered\<close>





text \<open>
  The workspace holds \<open>items\<close>: they are its first cells, in order, \<open>ost_idx\<close> is their
  number and \<open>ost_size\<close> the number of cells allocated.
\<close>

definition ost_holds :: "iterator_data \<Rightarrow> rbh_value list \<Rightarrow> bool" where
  "ost_holds d items \<longleftrightarrow>
     ost_idx d = int (length items) \<and> ost_size d = int (length (ost d)) \<and>
     length items \<le> length (ost d) \<and> take (length items) (ost d) = map Some items"

section \<open>Branching to the sentinel\<close>

text \<open>
  Modelled from the spec: the branch operation of a backend (behind \<open>rbh_backend_branch\<close>
  of robinhood/backend.h, provided by each backend plugin) is missing. The spec says that
  branching to an ID of size 0 must fail with InvalidId (EINVAL here) and never silently
  succeed; for any other ID the backend decides.
\<close>

definition branch_rejecting_sentinel ::
  "('b \<Rightarrow> rbh_id \<Rightarrow> errno + 'b) \<Rightarrow> 'b \<Rightarrow> rbh_id \<Rightarrow> errno + 'b" where
  "branch_rejecting_sentinel backend_branch backend i =
     (if id_size i = 0 then Inl EINVAL else backend_branch backend i)"

definition with_spec_branch :: "('p, 'b) uri_env \<Rightarrow> ('p, 'b) uri_env" where
  "with_spec_branch env =
     env\<lparr>rbh_backend_branch := branch_rejecting_sentinel (rbh_backend_branch env)\<rparr>"

section \<open>Example environments\<close>

text \<open>
  A \<open>posix\<close> plugin (handle 7) whose backend (handle 0) knows \<open>/some/dir\<close>, an entry
  \<open>/no/id\<close> resolved without its ID, and the root, whose entry carries the size-0 ID;
  a branch of backend \<open>b\<close> is \<open>b + 1\<close>. No other plugin can be loaded: importing
  \<open>mongo\<close> fails with ENOMEM, any other name in the dynamic loader.
\<close>

definition example_uri_env :: "(nat, nat) uri_env" where
  "example_uri_env =
     \<lparr>rbh_parse_raw_uri = (\<lambda>str. if str = ''posix:///mnt/fs#/some/dir''
          then Inr \<lparr>raw_scheme = ''posix'', raw_path = ''/mnt/fs'', raw_fragment = Some ''/some/dir''\<rparr>
          else if str = ''posix:///mnt/fs#[1]''
          then Inr \<lparr>raw_scheme = ''posix'', raw_path = ''/mnt/fs'', raw_fragment = Some ''[1]''\<rparr>
          else if str = ''posix:///mnt/fs''
          then Inr \<lparr>raw_scheme = ''posix'', raw_path = ''/mnt/fs'', raw_fragment = None\<rparr>
          else Inl EINVAL),
      rbh_parse_uri = (\<lambda>raw. Inr \<lparr>uri_backend = raw_scheme raw, uri_fsname = raw_path raw,
          uri_id = \<lparr>id_data = (case raw_fragment raw of None \<Rightarrow> [] | Some f \<Rightarrow> [1])\<rparr>\<rparr>),
      rbh_percent_decode = Inr,
      rbh_backend_plugin_import = (\<lambda>name. if name = ''posix'' then Inr 7
                                          else if name = ''mongo'' then Inl ENOMEM else Inl 0),
      dlerror = Some ''librbh-lustre.so: cannot open shared object file'',
      rbh_backend_plugin_new = (\<lambda>plugin fsname. Inr 0),
      rbh_backend_fsentry_from_path = (\<lambda>backend path.
          if path = ''/some/dir'' then Inr \<lparr>fsentry_mask = 1, fsentry_id = \<lparr>id_data = [4, 2]\<rparr>\<rparr>
          else if path = ''/no/id'' then Inr \<lparr>fsentry_mask = 2, fsentry_id = \<lparr>id_data = [4, 2]\<rparr>\<rparr>
          else if path = ''/'' then Inr \<lparr>fsentry_mask = 1, fsentry_id = \<lparr>id_data = []\<rparr>\<rparr>
          else Inl 2),
      rbh_backend_branch = (\<lambda>backend i. Inr (Suc backend)),
      RBH_FP_ID = 1\<rparr>"

text \<open>
  Entries of a Lustre filesystem. A file with a plain layout of two stripes on OSTs 3 and
  7; a file with a composite layout of three components (two stripes on OSTs 3 and 7,
  an uninitialised component, three stripes on OSTs 1, 2 and 5) whose last component has
  ID 3; a directory without objects nor striping of its own (\<open>LL_IOC_LMV_GETSTRIPE\<close> fails
  with ENODATA). The arena and the heap never fail. The inode carries the retention
  attribute \<open>user.ccc_expires_at = "123"\<close>.
\<close>

definition example_comp_init :: llapi_comp where
  "example_comp_init =
     \<lparr>comp_stripe_count = Inr 2, comp_stripe_size = Inr 1048576, comp_pattern = Inr 0,
      comp_flags = Inr 0x10, comp_pool_name = Inr ''fast'',
      comp_ost_index = (\<lambda>i. if i = 0 then Inr 3 else if i = 1 then Inr 7 else Inl EINVAL),
      comp_extent = Inr (0, 1048576), comp_mirror_id = Inr 1\<rparr>"

definition example_comp_uninit :: llapi_comp where
  "example_comp_uninit =
     \<lparr>comp_stripe_count = Inr 4, comp_stripe_size = Inr 1048576, comp_pattern = Inr 0,
      comp_flags = Inr 0, comp_pool_name = Inr [],
      comp_ost_index = (\<lambda>i. Inl EINVAL),
      comp_extent = Inr (1048576, 4194304), comp_mirror_id = Inr 1\<rparr>"

definition example_comp_wide :: llapi_comp where
  "example_comp_wide =
     \<lparr>comp_stripe_count = Inr 3, comp_stripe_size = Inr 4194304, comp_pattern = Inr 0,
      comp_flags = Inr 0x10, comp_pool_name = Inr ''fast'',
      comp_ost_index = (\<lambda>i. if i = 0 then Inr 1 else if i = 1 then Inr 2
                               else if i = 2 then Inr 5 else Inl EINVAL),
      comp_extent = Inr (4194304, - 1), comp_mirror_id = Inr 1\<rparr>"

definition example_comp_dir :: llapi_comp where
  "example_comp_dir =
     \<lparr>comp_stripe_count = Inr 1, comp_stripe_size = Inr 1048576, comp_pattern = Inr 0,
      comp_flags = Inr 0, comp_pool_name = Inr [],
      comp_ost_index = (\<lambda>i. Inl EINVAL),
      comp_extent = Inr (0, - 1), comp_mirror_id = Inr 0\<rparr>"

definition example_layout_plain :: llapi_layout where
  "example_layout_plain =
     \<lparr>layout_flags = Inr 0, layout_is_composite = False, layout_mirror_count = Inr 1,
      layout_comp_use_last = None, layout_comp_id = Inr 1, layout_comp_use_first = None,
      layout_first = example_comp_init, layout_others = []\<rparr>"

definition example_layout_composite :: llapi_layout where
  "example_layout_composite =
     \<lparr>layout_flags = Inr 0, layout_is_composite = True, layout_mirror_count = Inr 1,
      layout_comp_use_last = None, layout_comp_id = Inr 3, layout_comp_use_first = None,
      layout_first = example_comp_init,
      layout_others = [example_comp_uninit, example_comp_wide]\<rparr>"

definition example_layout_dir :: llapi_layout where
  "example_layout_dir = example_layout_plain\<lparr>layout_first := example_comp_dir\<rparr>"

definition example_env :: lustre_env where
  "example_env =
     \<lparr>llapi_fd2fid = Inr [1, 2, 3, 4, 5, 6, 7, 8, 9, 10, 11, 12, 13, 14, 15, 16],
      llapi_hsm_state_get_fd = Inr \<lparr>hus_states = 1, hus_archive_id = 2\<rparr>,
      llapi_layout_get_by_fd = Inr example_layout_plain,
      fgetxattr_lov = Inr \<lparr>lmm_magic = LOV_USER_MAGIC_V1, lmm_layout_gen = 5,
                            lcm_layout_gen = 0\<rparr>,
      ioctl_lmv_getstripe = Inl ENODATA,
      llapi_file_fget_mdtidx = Inr 0,
      sstack_push_fails = (\<lambda>n. None),
      alloc_fails = (\<lambda>n. False)\<rparr>"

definition example_composite_env :: lustre_env where
  "example_composite_env = example_env\<lparr>llapi_layout_get_by_fd := Inr example_layout_composite\<rparr>"

definition example_dir_env :: lustre_env where
  "example_dir_env = example_env\<lparr>llapi_layout_get_by_fd := Inr example_layout_dir\<rparr>"

definition example_state :: lustre_state where
  "example_state =
     \<lparr>st_errno = 0, st_pushes = 0, st_allocs = 0, st_calls = [], st_pairs = Map.empty,
      st_inode_xattrs =
        [\<lparr>pair_key = ''user.ccc_expires_at'', pair_value = Some (Binary [0x31, 0x32, 0x33])\<rparr>],
      is_dir = False, is_reg = False, is_symlink = False\<rparr>"

section \<open>Properties\<close>

subsection \<open>Identity and URI resolution\<close>

text \<open>
  C1. The bounded-buffer copy is atomic. With less capacity than \<open>src\<close> has bytes the
  copy fails with ENOBUFS and the buffer, cursor and capacity are what they were. With
  enough capacity it succeeds, the cursor advances by exactly the size of \<open>src\<close>, the
  capacity drops by exactly that, and the bytes of \<open>src\<close> lie at the old cursor.
\<close>

theorem rbh_id_copy_atomic:
  "(buf_size b < id_size src \<longrightarrow> rbh_id_copy src b = (Inl ENOBUFS, b)) \<and>
   (id_size src \<le> buf_size b \<longrightarrow>
      (\<exists>dest b'. rbh_id_copy src b = (Inr dest, b') \<and>
         id_data dest = id_data src \<and>
         buf_cursor b' = buf_cursor b + id_size src \<and>
         buf_size b' + id_size src = buf_size b \<and>
         (buf_cursor b \<le> length (buf_mem b) \<longrightarrow>
            take (id_size src) (drop (buf_cursor b) (buf_mem b')) = id_data src)))"
  by (simp add: rbh_id_copy_def id_size_def)

theorem rbh_id_copy_atomic_witness:
  "rbh_id_copy \<lparr>id_data = [1, 2, 3]\<rparr> \<lparr>buf_mem = [0, 0, 0, 0], buf_cursor = 2, buf_size = 2\<rparr>
     = (Inl ENOBUFS, \<lparr>buf_mem = [0, 0, 0, 0], buf_cursor = 2, buf_size = 2\<rparr>) \<and>
   (\<exists>dest b'. rbh_id_copy \<lparr>id_data = [1, 2, 3]\<rparr>
                  \<lparr>buf_mem = [0, 0, 0, 0, 0, 0], buf_cursor = 2, buf_size = 4\<rparr> = (Inr dest, b') \<and>
        buf_cursor b' = 5 \<and> buf_size b' = 1 \<and> buf_mem b' = [0, 0, 1, 2, 3, 0])"
  using rbh_id_copy_atomic [of "\<lparr>buf_mem = [0, 0, 0, 0], buf_cursor = 2, buf_size = 2\<rparr>"
                               "\<lparr>id_data = [1, 2, 3]\<rparr>"]
        rbh_id_copy_atomic [of "\<lparr>buf_mem = [0, 0, 0, 0, 0, 0], buf_cursor = 2, buf_size = 4\<rparr>"
                               "\<lparr>id_data = [1, 2, 3]\<rparr>"]
  by (simp add: id_size_def rbh_id_copy_def)

lemma backend_new_ok:
  assumes "rbh_backend_plugin_import env type = Inr plugin"
      and "rbh_backend_plugin_new env plugin fsname = Inr backend"
  shows "backend_new env type fsname tr = (Inr backend, tr @ [Import type, New plugin fsname])"
  using assms by (simp add: backend_new_def backend_plugin_import_def)

text \<open>
  C2. With an entry path that decodes and resolves on the freshly created backend: if the
  entry's mask lacks the ID bit, the resolution is fatal with ENODATA, and nothing was
  branched or destroyed; otherwise the backend is branched to the entry's ID, the
  unbranched backend is destroyed, and the branch is returned, in that order.
\<close>

theorem backend_from_uri_path:
  assumes "rbh_backend_plugin_import env (uri_backend uri) = Inr plugin"
      and "rbh_backend_plugin_new env plugin (uri_fsname uri) = Inr backend"
      and "rbh_percent_decode env p = Inr decoded"
      and "rbh_backend_fsentry_from_path env backend decoded = Inr fsentry"
  shows "(fsentry_mask fsentry AND RBH_FP_ID env = 0 \<longrightarrow>
            backend_from_uri env uri (Some p) tr =
              (Inl (Fatal ENODATA ''rbh_backend_fsentry_from_path''),
               tr @ [Import (uri_backend uri), New plugin (uri_fsname uri),
                     Resolve backend decoded])) \<and>
         (fsentry_mask fsentry AND RBH_FP_ID env \<noteq> 0 \<longrightarrow>
            (\<forall>branch. rbh_backend_branch env backend (fsentry_id fsentry) = Inr branch \<longrightarrow>
               backend_from_uri env uri (Some p) tr =
                 (Inr branch,
                  tr @ [Import (uri_backend uri), New plugin (uri_fsname uri),
                        Resolve backend decoded, Branch backend (fsentry_id fsentry),
                        Destroy backend])))"
  using assms by (simp add: backend_from_uri_def backend_new_ok destroy_and_return_def)

theorem backend_from_uri_path_witness:
  "backend_from_uri example_uri_env
     \<lparr>uri_backend = ''posix'', uri_fsname = ''/mnt/fs'', uri_id = \<lparr>id_data = []\<rparr>\<rparr>
     (Some ''/some/dir'') []
   = (Inr 1, [Import ''posix'', New 7 ''/mnt/fs'', Resolve 0 ''/some/dir'',
              Branch 0 \<lparr>id_data = [4, 2]\<rparr>, Destroy 0]) \<and>
   backend_from_uri example_uri_env
     \<lparr>uri_backend = ''posix'', uri_fsname = ''/mnt/fs'', uri_id = \<lparr>id_data = []\<rparr>\<rparr>
     (Some ''/no/id'') []
   = (Inl (Fatal ENODATA ''rbh_backend_fsentry_from_path''),
      [Import ''posix'', New 7 ''/mnt/fs'', Resolve 0 ''/no/id''])"
  using backend_from_uri_path [of example_uri_env
          "\<lparr>uri_backend = ''posix'', uri_fsname = ''/mnt/fs'', uri_id = \<lparr>id_data = []\<rparr>\<rparr>"
          7 0 "''/some/dir''" "''/some/dir''"
          "\<lparr>fsentry_mask = 1, fsentry_id = \<lparr>id_data = [4, 2]\<rparr>\<rparr>" "[]"]
        backend_from_uri_path [of example_uri_env
          "\<lparr>uri_backend = ''posix'', uri_fsname = ''/mnt/fs'', uri_id = \<lparr>id_data = []\<rparr>\<rparr>"
          7 0 "''/no/id''" "''/no/id''"
          "\<lparr>fsentry_mask = 2, fsentry_id = \<lparr>id_data = [4, 2]\<rparr>\<rparr>" "[]"]
  by (simp add: example_uri_env_def)

text \<open>
  C3. Without an entry path: an embedded ID of non-zero size is branched to directly and
  the branch is returned (the unbranched backend being destroyed); with an ID of size 0
  the unbranched backend is returned as it was created.
\<close>

theorem backend_from_uri_no_path:
  assumes "rbh_backend_plugin_import env (uri_backend uri) = Inr plugin"
      and "rbh_backend_plugin_new env plugin (uri_fsname uri) = Inr backend"
  shows "(id_size (uri_id uri) \<noteq> 0 \<longrightarrow>
            (\<forall>branch. rbh_backend_branch env backend (uri_id uri) = Inr branch \<longrightarrow>
               backend_from_uri env uri None tr =
                 (Inr branch,
                  tr @ [Import (uri_backend uri), New plugin (uri_fsname uri),
                        Branch backend (uri_id uri), Destroy backend]))) \<and>
         (id_size (uri_id uri) = 0 \<longrightarrow>
            backend_from_uri env uri None tr =
              (Inr backend, tr @ [Import (uri_backend uri), New plugin (uri_fsname uri)]))"
  using assms by (simp add: backend_from_uri_def backend_new_ok destroy_and_return_def)

theorem backend_from_uri_no_path_witness:
  "backend_from_uri example_uri_env
     \<lparr>uri_backend = ''posix'', uri_fsname = ''/mnt/fs'', uri_id = \<lparr>id_data = [9]\<rparr>\<rparr> None []
   = (Inr 1, [Import ''posix'', New 7 ''/mnt/fs'', Branch 0 \<lparr>id_data = [9]\<rparr>, Destroy 0]) \<and>
   backend_from_uri example_uri_env
     \<lparr>uri_backend = ''posix'', uri_fsname = ''/mnt/fs'', uri_id = \<lparr>id_data = []\<rparr>\<rparr> None []
   = (Inr 0, [Import ''posix'', New 7 ''/mnt/fs''])"
  using backend_from_uri_no_path [of example_uri_env
          "\<lparr>uri_backend = ''posix'', uri_fsname = ''/mnt/fs'', uri_id = \<lparr>id_data = [9]\<rparr>\<rparr>"
          7 0 "[]"]
        backend_from_uri_no_path [of example_uri_env
          "\<lparr>uri_backend = ''posix'', uri_fsname = ''/mnt/fs'', uri_id = \<lparr>id_data = []\<rparr>\<rparr>"
          7 0 "[]"]
  by (simp add: example_uri_env_def id_size_def)

lemma backend_new_cases:
  "(\<exists>f tr1. backend_new env type fsname tr = (Inl f, tr1) \<and> (\<forall>b i. Branch b i \<in> set tr1 \<longrightarrow> Branch b i \<in> set tr))
   \<or> (\<exists>backend tr1. backend_new env type fsname tr = (Inr backend, tr1) \<and> (\<forall>b i. Branch b i \<in> set tr1 \<longrightarrow> Branch b i \<in> set tr))"
  by (auto simp: backend_new_def backend_plugin_import_def split: sum.splits)

text \<open>
  C4. The size-0 ID is the sentinel of "does not exist". An embedded ID of size 0 is
  treated as absent: no branch is attempted. And whenever the resolver does branch to an
  ID of size 0 (through a resolved path), the resolution fails with the invalid-ID error
  of the branch operation: it never returns a backend.
\<close>

theorem size_zero_id_never_branched:
  "(id_size (uri_id uri) = 0 \<longrightarrow>
      (\<forall>b i. Branch b i \<notin> set (snd (backend_from_uri (with_spec_branch env) uri None [])))) \<and>
   (\<forall>b i. Branch b i \<in> set (snd (backend_from_uri (with_spec_branch env) uri path [])) \<longrightarrow>
      id_size i = 0 \<longrightarrow>
      fst (backend_from_uri (with_spec_branch env) uri path []) =
        Inl (Fatal EINVAL ''rbh_backend_branch''))"
proof -
  let ?env = "with_spec_branch env"
  from backend_new_cases [of ?env "uri_backend uri" "uri_fsname uri" "[]"]
  consider (fail) f tr1 where
      "backend_new ?env (uri_backend uri) (uri_fsname uri) [] = (Inl f, tr1)"
      "\<forall>b i. Branch b i \<notin> set tr1"
    | (ok) backend tr1 where
      "backend_new ?env (uri_backend uri) (uri_fsname uri) [] = (Inr backend, tr1)"
      "\<forall>b i. Branch b i \<notin> set tr1"
    by auto
  then show ?thesis
  proof cases
    case fail
    then show ?thesis by (simp add: backend_from_uri_def)
  next
    case ok
    then show ?thesis
      by (auto simp: backend_from_uri_def destroy_and_return_def with_spec_branch_def
                     branch_rejecting_sentinel_def
               split: option.splits sum.splits)
  qed
qed

theorem size_zero_id_never_branched_witness:
  "(\<forall>b i. Branch b i \<notin> set (snd (backend_from_uri (with_spec_branch example_uri_env)
       \<lparr>uri_backend = ''posix'', uri_fsname = ''/mnt/fs'', uri_id = \<lparr>id_data = []\<rparr>\<rparr> None []))) \<and>
   backend_from_uri (with_spec_branch example_uri_env)
     \<lparr>uri_backend = ''posix'', uri_fsname = ''/mnt/fs'', uri_id = \<lparr>id_data = []\<rparr>\<rparr> (Some ''/'') []
   = (Inl (Fatal EINVAL ''rbh_backend_branch''),
      [Import ''posix'', New 7 ''/mnt/fs'', Resolve 0 ''/'', Branch 0 \<lparr>id_data = []\<rparr>, Destroy 0])"
  using size_zero_id_never_branched [of
          "\<lparr>uri_backend = ''posix'', uri_fsname = ''/mnt/fs'', uri_id = \<lparr>id_data = []\<rparr>\<rparr>"
          example_uri_env "Some ''/''"]
  by (simp add: example_uri_env_def id_size_def with_spec_branch_def backend_from_uri_def
                backend_new_def backend_plugin_import_def destroy_and_return_def
                branch_rejecting_sentinel_def)

text \<open>
  C6. A fragment that does not begin with \<open>[\<close> is the entry path: the backend-level
  parser sees the raw URI with its fragment set to absent, and the resolution goes on
  with the fragment as the path. A fragment that begins with \<open>[\<close> stays in the raw URI
  and there is no path.
\<close>

theorem fragment_path_removed:
  assumes "rbh_parse_raw_uri env string = Inr raw_uri"
      and "raw_fragment raw_uri = Some fragment"
  shows "((\<forall>rest. fragment \<noteq> CHR ''['' # rest) \<longrightarrow>
            rbh_backend_from_uri env string tr =
              backend_from_raw_uri env (raw_uri\<lparr>raw_fragment := None\<rparr>) (Some fragment) tr \<and>
            (\<forall>uri. rbh_parse_uri env (raw_uri\<lparr>raw_fragment := None\<rparr>) = Inr uri \<longrightarrow>
               rbh_backend_from_uri env string tr = backend_from_uri env uri (Some fragment) tr)) \<and>
         ((\<exists>rest. fragment = CHR ''['' # rest) \<longrightarrow>
            rbh_backend_from_uri env string tr = backend_from_raw_uri env raw_uri None tr \<and>
            (\<forall>uri. rbh_parse_uri env raw_uri = Inr uri \<longrightarrow>
               rbh_backend_from_uri env string tr = backend_from_uri env uri None tr))"
  using assms
  by (cases fragment)
     (auto simp: rbh_backend_from_uri_def fragment_is_path_def backend_from_raw_uri_def)

theorem fragment_path_removed_witness:
  "rbh_backend_from_uri example_uri_env ''posix:///mnt/fs#/some/dir'' []
     = backend_from_uri example_uri_env
         \<lparr>uri_backend = ''posix'', uri_fsname = ''/mnt/fs'', uri_id = \<lparr>id_data = []\<rparr>\<rparr>
         (Some ''/some/dir'') [] \<and>
   rbh_backend_from_uri example_uri_env ''posix:///mnt/fs#[1]'' []
     = backend_from_uri example_uri_env
         \<lparr>uri_backend = ''posix'', uri_fsname = ''/mnt/fs'', uri_id = \<lparr>id_data = [1]\<rparr>\<rparr>
         None []"
proof -
  let ?path = "\<lparr>raw_scheme = ''posix'', raw_path = ''/mnt/fs'',
                raw_fragment = Some ''/some/dir''\<rparr>"
  let ?ident = "\<lparr>raw_scheme = ''posix'', raw_path = ''/mnt/fs'', raw_fragment = Some ''[1]''\<rparr>"
  have raw1: "rbh_parse_raw_uri example_uri_env ''posix:///mnt/fs#/some/dir'' = Inr ?path"
    by (simp add: example_uri_env_def)
  have raw2: "rbh_parse_raw_uri example_uri_env ''posix:///mnt/fs#[1]'' = Inr ?ident"
    by (simp add: example_uri_env_def)
  have uri1: "rbh_parse_uri example_uri_env (?path\<lparr>raw_fragment := None\<rparr>)
                = Inr \<lparr>uri_backend = ''posix'', uri_fsname = ''/mnt/fs'',
                       uri_id = \<lparr>id_data = []\<rparr>\<rparr>"
    by (simp add: example_uri_env_def)
  have uri2: "rbh_parse_uri example_uri_env ?ident
                = Inr \<lparr>uri_backend = ''posix'', uri_fsname = ''/mnt/fs'',
                       uri_id = \<lparr>id_data = [1]\<rparr>\<rparr>"
    by (simp add: example_uri_env_def)
  from fragment_path_removed [OF raw1, of "''/some/dir''" "[]"] uri1
  have "rbh_backend_from_uri example_uri_env ''posix:///mnt/fs#/some/dir'' []
          = backend_from_uri example_uri_env
              \<lparr>uri_backend = ''posix'', uri_fsname = ''/mnt/fs'', uri_id = \<lparr>id_data = []\<rparr>\<rparr>
              (Some ''/some/dir'') []"
    by (simp add: backend_from_raw_uri_def)
  moreover from fragment_path_removed [OF raw2, of "''[1]''" "[]"] uri2
  have "rbh_backend_from_uri example_uri_env ''posix:///mnt/fs#[1]'' []
          = backend_from_uri example_uri_env
              \<lparr>uri_backend = ''posix'', uri_fsname = ''/mnt/fs'', uri_id = \<lparr>id_data = [1]\<rparr>\<rparr>
              None []"
    by (simp add: backend_from_raw_uri_def)
  ultimately show ?thesis by simp
qed

text \<open>
  C7. A failed plugin import ends the resolution attempt. When the import left \<open>errno\<close>
  at 0, the diagnostic is the text of \<open>dlerror()\<close>, verbatim after the function's name;
  otherwise it carries the import's \<open>errno\<close>. Nothing else is attempted.
\<close>

theorem plugin_import_failure_fatal:
  assumes "rbh_backend_plugin_import env (uri_backend uri) = Inl e"
  shows "(e = 0 \<longrightarrow>
            (\<forall>txt. dlerror env = Some txt \<longrightarrow>
               backend_from_uri env uri path tr =
                 (Inl (Fatal 0 (''rbh_backend_plugin_import: '' @ txt)),
                  tr @ [Import (uri_backend uri)]))) \<and>
         (e \<noteq> 0 \<longrightarrow>
            backend_from_uri env uri path tr =
              (Inl (Fatal e ''rbh_backend_plugin_import''), tr @ [Import (uri_backend uri)]))"
  using assms
  by (simp add: backend_from_uri_def backend_new_def backend_plugin_import_def)

theorem plugin_import_failure_fatal_witness:
  "backend_from_uri example_uri_env
     \<lparr>uri_backend = ''lustre'', uri_fsname = ''/mnt/fs'', uri_id = \<lparr>id_data = []\<rparr>\<rparr> None []
   = (Inl (Fatal 0 (''rbh_backend_plugin_import: ''
                    @ ''librbh-lustre.so: cannot open shared object file'')),
      [Import ''lustre'']) \<and>
   backend_from_uri example_uri_env
     \<lparr>uri_backend = ''mongo'', uri_fsname = ''/mnt/fs'', uri_id = \<lparr>id_data = []\<rparr>\<rparr> None []
   = (Inl (Fatal ENOMEM ''rbh_backend_plugin_import''), [Import ''mongo''])"
  using plugin_import_failure_fatal [of example_uri_env
          "\<lparr>uri_backend = ''lustre'', uri_fsname = ''/mnt/fs'', uri_id = \<lparr>id_data = []\<rparr>\<rparr>"
          0 None "[]"]
        plugin_import_failure_fatal [of example_uri_env
          "\<lparr>uri_backend = ''mongo'', uri_fsname = ''/mnt/fs'', uri_id = \<lparr>id_data = []\<rparr>\<rparr>"
          ENOMEM None "[]"]
  by (simp add: example_uri_env_def ENOMEM_def)

subsection \<open>The OST workspace of the layout extractor\<close>







lemma ost_append_holds:
  assumes "ost_append v d = Inr d'" and "ost_holds d items"
  shows "ost_holds d' (items @ [v])"
proof -
  from assms(1) have idx: "nat (ost_idx d) < length (ost d)" "0 \<le> ost_idx d"
    and d': "d' = d\<lparr>ost := (ost d)[nat (ost_idx d) := Some v], ost_idx := ost_idx d + 1\<rparr>"
    by (auto simp: ost_append_def split: if_splits)
  from assms(2) have n: "nat (ost_idx d) = length items"
    and pre: "take (length items) (ost d) = map Some items"
    and sz: "ost_size d = int (length (ost d))"
    by (auto simp: ost_holds_def)
  have "take (Suc (length items)) ((ost d)[length items := Some v]) = map Some items @ [Some v]"
    using idx n pre by (simp add: take_Suc_conv_app_nth)
  then show ?thesis
    using idx n sz assms(2) by (simp add: ost_holds_def d')
qed

lemma resize_holds:
  assumes "iter_data_ost_try_resize env d ost_len s = Inr (d', s')" and "ost_holds d items"
  shows "ost_holds d' items"
proof (cases "ost_idx d + ost_len > ost_size d")
  case False
  with assms show ?thesis
    by (auto simp: iter_data_ost_try_resize_def split: if_splits)
next
  case True
  define n where "n = nat (ost_size d + ost_len)"
  define grown where "grown = take n (ost d @ replicate n None)"
  from True assms(1) have pos: "0 < ost_size d + ost_len"
    and d': "d' = d\<lparr>ost := grown, ost_size := ost_size d + ost_len\<rparr>"
    by (auto simp: iter_data_ost_try_resize_def n_def grown_def
             split: if_splits prod.splits bool.splits)
  from assms(2) have h: "ost_idx d = int (length items)" "ost_size d = int (length (ost d))"
    "length items \<le> length (ost d)" "take (length items) (ost d) = map Some items"
    by (auto simp: ost_holds_def)
  from True h have len: "length items \<le> n" unfolding n_def by linarith
  have grown_len: "length grown = n" by (simp add: grown_def)
  have "take (length items) grown = take (length items) (ost d)"
    using len h(3) by (simp add: grown_def min_absorb1)
  with h(4) have grown_pre: "take (length items) grown = map Some items" by simp
  have "ost_size d + ost_len = int n" using pos by (simp add: n_def)
  with h(1) len grown_len grown_pre show ?thesis
    by (simp add: ost_holds_def d')
qed









lemma sint_small:
  assumes "unat (len :: 32 word) < 2 ^ 31"
  shows "sint len = int (unat len)"
proof -
  from assms have "int (unat len) < int (2 ^ 31)" by (simp only: of_nat_less_iff)
  then have "uint len < 2 ^ 31" by simp
  moreover have "- (2 ^ 31) \<le> uint len"
    by (rule order_trans [of _ 0]) simp_all
  ultimately have "signed_take_bit 31 (uint len) = uint len"
    by (intro signed_take_bit_int_eq_self)
  then show ?thesis by (simp add: sint_uint)
qed





lemma fill_sequences_count:
  "fill_sequences env d ptrs pairs subcount s = Inr (n, s') \<Longrightarrow> n = subcount + length ptrs"
proof (induction ptrs arbitrary: subcount s)
  case Nil
  then show ?case by simp
next
  case (Cons p ptrs)
  obtain key vals where p: "p = (key, vals)" by (cases p)
  from Cons.prems obtain s1 where
    "fill_sequences env d ptrs pairs (Suc subcount) s1 = Inr (n, s')"
    by (auto simp: p split: sum.splits)
  from Cons.IH [OF this] show ?case by simp
qed






lemmas fill_defs = fill_pair_def fill_binary_pair_def fill_string_pair_def fill_int32_pair_def
  fill_uint32_pair_def fill_uint64_pair_def fill_sequence_pair_def rbh_sstack_push_def
  stored_def called_def and_then_def getter_def heap_alloc_def

lemmas layout_defs = init_iterator_data_def iterator_data_zero_def
  fill_iterator_data_def set_cell_def create_uint64_value_def create_uint32_value_def
  create_string_value_def iter_data_ost_try_resize_def LCME_FL_INIT_def INT_MAX_def INT_MIN_def
  ost_loop.simps ost_append_def xattrs_fill_layout_def read_cells_def
  xattrs_layout_iterator_def layout_get_nb_comp_def xattrs_get_magic_and_gen_def

lemmas example_defs = example_env_def example_dir_env_def example_composite_env_def
  example_layout_plain_def example_layout_composite_def example_layout_dir_def
  example_comp_init_def example_comp_uninit_def example_comp_wide_def example_comp_dir_def

lemma replicate_numeral: "replicate (numeral k) x = x # replicate (pred_numeral k) x"
  by (simp add: numeral_eq_Suc)

lemma list_update_numeral: "(x # xs)[numeral k := y] = x # xs[pred_numeral k := y]"
  by (simp add: numeral_eq_Suc)





text \<open>
  The writes of the stripe loop stay inside the workspace: when the stripe count fits a
  C \<open>int\<close> and the grown array stays below \<open>INT_MAX\<close> cells, neither the resize nor the
  loop runs into undefined behaviour.
\<close>

lemma ost_loop_in_bounds:
  "ost_holds d items \<Longrightarrow> length items + (unat stripe_cnt - unat i) \<le> length (ost d) \<Longrightarrow>
   int (length (ost d)) \<le> INT_MAX \<Longrightarrow>
   ost_loop g stripe_cnt i d s \<noteq> Inl Fault"
proof (induction g stripe_cnt i d s arbitrary: items rule: ost_loop.induct)
  case (1 g stripe_cnt i d s)
  show ?case
  proof (cases "i < stripe_cnt")
    case False
    then show ?thesis by (simp add: ost_loop.simps)
  next
    case True
    then have lt: "unat i < unat stripe_cnt" by (simp add: word_less_nat_alt)
    from True have suc: "unat (i + 1) = Suc (unat i)" by unat_arith
    show ?thesis
    proof (cases "g i")
      case (Inl e)
      with True show ?thesis by (simp add: ost_loop.simps [of g stripe_cnt i])
    next
      case (Inr tmp)
      from "1.prems" lt have room: "length items < length (ost d)" by linarith
      from "1.prems"(1) have idx: "ost_idx d = int (length items)"
        by (simp add: ost_holds_def)
      from room idx "1.prems"(3) obtain d1 where
        app: "ost_append (create_uint64_value tmp) d = Inr d1"
        by (auto simp: ost_append_def)
      from app have len: "length (ost d1) = length (ost d)"
        by (auto simp: ost_append_def split: if_splits)
      from ost_append_holds [OF app "1.prems"(1)]
      have h1: "ost_holds d1 (items @ [create_uint64_value tmp])" .
      have "ost_loop g stripe_cnt (i + 1) d1 s \<noteq> Inl Fault"
        using "1.prems"(2,3) lt suc len
        by (intro "1.IH" [OF True Inr app h1]) simp_all
      with True Inr app show ?thesis by (simp add: ost_loop.simps [of g stripe_cnt i])
    qed
  qed
qed

lemma sint_ucast_small:
  assumes "unat (stripe_cnt :: 64 word) < 2 ^ 31"
  shows "sint (ucast stripe_cnt :: 32 word) = int (unat stripe_cnt)"
proof -
  have "unat (ucast stripe_cnt :: 32 word) = take_bit 32 (unat stripe_cnt)"
    by (simp add: unsigned_ucast_eq)
  also from assms have "\<dots> = unat stripe_cnt"
    by (simp add: take_bit_nat_eq_self)
  finally have "unat (ucast stripe_cnt :: 32 word) = unat stripe_cnt" .
  with assms sint_small [of "ucast stripe_cnt :: 32 word"] show ?thesis by simp
qed

lemma ost_workspace_in_bounds:
  assumes "ost_holds d items"
      and "unat stripe_cnt < 2 ^ 31"
      and "length (ost d) + unat stripe_cnt < 2 ^ 31"
  shows "iter_data_ost_try_resize env d (sint (ucast stripe_cnt :: 32 word)) s \<noteq> Inl Fault"
    and "iter_data_ost_try_resize env d (sint (ucast stripe_cnt :: 32 word)) s = Inr (d6, s2) \<Longrightarrow>
         ost_loop g stripe_cnt 0 d6 s2 \<noteq> Inl Fault"
proof -
  define n where "n = unat stripe_cnt"
  have len: "sint (ucast stripe_cnt :: 32 word) = int n"
    unfolding n_def using assms(2) by (rule sint_ucast_small)
  from assms(3) have bound: "length (ost d) + n < 2 ^ 31" by (simp add: n_def)
  from assms(1) have h: "ost_idx d = int (length items)" "ost_size d = int (length (ost d))"
    "length items \<le> length (ost d)"
    by (auto simp: ost_holds_def)
  show "iter_data_ost_try_resize env d (sint (ucast stripe_cnt :: 32 word)) s \<noteq> Inl Fault"
    using h bound unfolding len
    by (auto simp: iter_data_ost_try_resize_def INT_MAX_def INT_MIN_def
             split: prod.splits bool.splits)
  assume "iter_data_ost_try_resize env d (sint (ucast stripe_cnt :: 32 word)) s = Inr (d6, s2)"
  then have rs: "iter_data_ost_try_resize env d (int n) s = Inr (d6, s2)"
    by (simp only: len)
  from resize_holds [OF rs assms(1)] have h6: "ost_holds d6 items" .
  have room: "length items + n \<le> length (ost d6) \<and> length (ost d6) \<le> length (ost d) + n"
  proof (cases "ost_idx d + int n > ost_size d")
    case False
    with rs have "d6 = d" by (auto simp: iter_data_ost_try_resize_def split: if_splits)
    with False h show ?thesis by simp
  next
    case True
    with rs have "ost d6 = take (nat (ost_size d + int n))
                             (ost d @ replicate (nat (ost_size d + int n)) None)"
      by (auto simp: iter_data_ost_try_resize_def split: if_splits prod.splits bool.splits)
    then have "length (ost d6) = length (ost d) + n"
      using h(2) by (simp add: nat_add_distrib)
    with h(3) show ?thesis by simp
  qed
  with bound have "int (length (ost d6)) \<le> INT_MAX" by (simp add: INT_MAX_def)
  with room ost_loop_in_bounds [OF h6, of stripe_cnt 0 g s2]
  show "ost_loop g stripe_cnt 0 d6 s2 \<noteq> Inl Fault" by (simp add: n_def)
qed

subsection \<open>The callback and its extractors\<close>

lemma xattrs_get_fid_Inr:
  assumes "xattrs_get_fid env pairs s = Inr (n, s')"
  shows "n = 1" "st_calls s' = st_calls s @ [Call_fd2fid]"
    "is_reg s' = is_reg s" "is_dir s' = is_dir s" "is_symlink s' = is_symlink s"
  using assms
  by (auto simp: xattrs_get_fid_def fill_defs split: sum.splits option.splits if_splits)

lemma S_ISLNK_exclusive: "S_ISLNK mode \<Longrightarrow> \<not> S_ISREG mode \<and> \<not> S_ISDIR mode"
  by (simp add: S_ISLNK_def S_ISREG_def S_ISDIR_def)

lemma and_then_Inl [simp]: "and_then (Inl f) k = Inl f"
  by (simp add: and_then_def)

lemma and_then_Inr [simp]: "and_then (Inr v) k = k v"
  by (simp add: and_then_def)

lemma and_then_assoc: "and_then (and_then r k) h = and_then r (\<lambda>v. and_then (k v) h)"
  by (cases r) simp_all

lemma xattrs_funcs_loop_Cons:
  "xattrs_funcs_loop (f # fs) count s =
     and_then (f count s) (\<lambda>(subcount, s1). xattrs_funcs_loop fs (count + subcount) s1)"
  by (cases "f count s") auto

lemma callback_unrolled:
  "lustre_ns_xattrs_callback env mode s =
     and_then (xattrs_get_fid env 0
                 (s\<lparr>is_symlink := S_ISLNK mode, is_dir := S_ISDIR mode,
                    is_reg := S_ISREG mode\<rparr>)) (\<lambda>(n1, s1).
     and_then (xattrs_get_hsm env n1 s1) (\<lambda>(n2, s2).
     and_then (xattrs_get_layout env (n1 + n2) s2) (\<lambda>(n3, s3).
     and_then (xattrs_get_mdt_info env (n1 + n2 + n3) s3) (\<lambda>(n4, s4).
     and_then (xattrs_get_retention env s4) (\<lambda>s5.
     Inr (n1 + n2 + n3 + n4, s5))))))"
  unfolding lustre_ns_xattrs_callback_def xattrs_funcs_def xattrs_funcs_loop_Cons
  by (simp add: and_then_assoc split_def)


lemma xattrs_get_hsm_skip: "\<not> is_reg s \<Longrightarrow> xattrs_get_hsm env pairs s = Inr (0, s)"
  by (simp add: xattrs_get_hsm_def)

lemma xattrs_get_layout_skip: "is_symlink s \<Longrightarrow> xattrs_get_layout env pairs s = Inr (0, s)"
  by (simp add: xattrs_get_layout_def)

lemma xattrs_get_mdt_info_skip:
  "\<not> is_dir s \<Longrightarrow> is_symlink s \<Longrightarrow> xattrs_get_mdt_info env pairs s = Inr (0, s)"
  by (simp add: xattrs_get_mdt_info_def)

text \<open>
  C10. Extraction is gated by the file type. Unless the entry is a regular file the HSM
  extractor returns 0 and leaves the state as it was: no pair, no query. On a symbolic
  link the layout extractor does the same. So for a mode that is not a regular file the
  callback is the pipeline without the HSM step, and for a symbolic link it is the FID
  extractor followed by the retention pass, with a count of 1.
\<close>

theorem extraction_mode_gated:
  "(\<not> is_reg s \<longrightarrow> xattrs_get_hsm env pairs s = Inr (0, s)) \<and>
   (is_symlink s \<longrightarrow> xattrs_get_layout env pairs s = Inr (0, s)) \<and>
   (\<not> S_ISREG mode \<longrightarrow>
      lustre_ns_xattrs_callback env mode s =
        and_then (xattrs_get_fid env 0
                    (s\<lparr>is_symlink := S_ISLNK mode, is_dir := S_ISDIR mode,
                       is_reg := S_ISREG mode\<rparr>)) (\<lambda>(n1, s1).
        and_then (xattrs_get_layout env n1 s1) (\<lambda>(n3, s3).
        and_then (xattrs_get_mdt_info env (n1 + n3) s3) (\<lambda>(n4, s4).
        and_then (xattrs_get_retention env s4) (\<lambda>s5.
        Inr (n1 + n3 + n4, s5)))))) \<and>
   (S_ISLNK mode \<longrightarrow>
      lustre_ns_xattrs_callback env mode s =
        and_then (xattrs_get_fid env 0
                    (s\<lparr>is_symlink := S_ISLNK mode, is_dir := S_ISDIR mode,
                       is_reg := S_ISREG mode\<rparr>)) (\<lambda>(n1, s1).
        and_then (xattrs_get_retention env s1) (\<lambda>s5.
        Inr (1, s5))))"
proof (intro conjI impI)
  assume "\<not> is_reg s"
  then show "xattrs_get_hsm env pairs s = Inr (0, s)" by (rule xattrs_get_hsm_skip)
next
  assume "is_symlink s"
  then show "xattrs_get_layout env pairs s = Inr (0, s)" by (rule xattrs_get_layout_skip)
next
  let ?s0 = "s\<lparr>is_symlink := S_ISLNK mode, is_dir := S_ISDIR mode, is_reg := S_ISREG mode\<rparr>"
  assume notreg: "\<not> S_ISREG mode"
  show "lustre_ns_xattrs_callback env mode s =
        and_then (xattrs_get_fid env 0 ?s0) (\<lambda>(n1, s1).
        and_then (xattrs_get_layout env n1 s1) (\<lambda>(n3, s3).
        and_then (xattrs_get_mdt_info env (n1 + n3) s3) (\<lambda>(n4, s4).
        and_then (xattrs_get_retention env s4) (\<lambda>s5.
        Inr (n1 + n3 + n4, s5)))))"
  proof (cases "xattrs_get_fid env 0 ?s0")
    case (Inl f)
    then show ?thesis by (simp add: callback_unrolled)
  next
    case (Inr r)
    obtain n1 s1 where r: "r = (n1, s1)" by (cases r)
    from Inr r xattrs_get_fid_Inr(3) [of env 0 ?s0 n1 s1] notreg
    have "\<not> is_reg s1" by simp
    with Inr r show ?thesis
      by (simp add: callback_unrolled xattrs_get_hsm_skip)
  qed
next
  let ?s0 = "s\<lparr>is_symlink := S_ISLNK mode, is_dir := S_ISDIR mode, is_reg := S_ISREG mode\<rparr>"
  assume lnk: "S_ISLNK mode"
  show "lustre_ns_xattrs_callback env mode s =
        and_then (xattrs_get_fid env 0 ?s0) (\<lambda>(n1, s1).
        and_then (xattrs_get_retention env s1) (\<lambda>s5.
        Inr (1, s5)))"
  proof (cases "xattrs_get_fid env 0 ?s0")
    case (Inl f)
    then show ?thesis by (simp add: callback_unrolled)
  next
    case (Inr r)
    obtain n1 s1 where r: "r = (n1, s1)" by (cases r)
    from Inr r have fid: "xattrs_get_fid env 0 ?s0 = Inr (n1, s1)" by simp
    from xattrs_get_fid_Inr [OF fid] lnk S_ISLNK_exclusive [OF lnk]
    have "n1 = 1" "\<not> is_reg s1" "\<not> is_dir s1" "is_symlink s1" by simp_all
    with fid show ?thesis
      by (simp add: callback_unrolled xattrs_get_hsm_skip xattrs_get_layout_skip
                    xattrs_get_mdt_info_skip)
  qed
qed








lemma called_pairs [simp]: "st_pairs (called c s) = st_pairs s"
  by (simp add: called_def)




















lemmas callback_defs = lustre_ns_xattrs_callback_def xattrs_funcs_def xattrs_get_fid_def
  xattrs_get_hsm_def xattrs_get_mdt_info_def xattrs_get_layout_def
  S_ISLNK_def S_ISDIR_def S_ISREG_def xattrs_get_retention_def XATTR_CCC_EXPIRES_AT_def
  UINT64_MAX_STR_LEN_def strtoul_def isspace_def isdigit_def decimal_def ENODATA_def

lemmas eval_defs = callback_defs example_defs example_state_def fill_defs layout_defs
  EINVAL_def replicate_numeral list_update_numeral

theorem extraction_mode_gated_witness:
  "xattrs_get_hsm example_env 1 (example_state\<lparr>is_symlink := True\<rparr>)
     = Inr (0, example_state\<lparr>is_symlink := True\<rparr>) \<and>
   xattrs_get_layout example_env 1 (example_state\<lparr>is_symlink := True\<rparr>)
     = Inr (0, example_state\<lparr>is_symlink := True\<rparr>) \<and>
   map_sum id fst (lustre_ns_xattrs_callback example_env 0xA1FF
                     (example_state\<lparr>is_symlink := True\<rparr>)) = Inr 1 \<and>
   lustre_ns_xattrs_callback example_env 0xA1FF (example_state\<lparr>is_symlink := True\<rparr>) =
     and_then (xattrs_get_fid example_env 0
                 (example_state\<lparr>is_symlink := True, is_symlink := S_ISLNK 0xA1FF,
                    is_dir := S_ISDIR 0xA1FF, is_reg := S_ISREG 0xA1FF\<rparr>)) (\<lambda>(n1, s1).
     and_then (xattrs_get_layout example_env n1 s1) (\<lambda>(n3, s3).
     and_then (xattrs_get_mdt_info example_env (n1 + n3) s3) (\<lambda>(n4, s4).
     and_then (xattrs_get_retention example_env s4) (\<lambda>s5.
     Inr (n1 + n3 + n4, s5))))) \<and>
   map_sum id fst (lustre_ns_xattrs_callback example_env 0x81A4 example_state) = Inr 13"
proof -
  have flags: "\<not> is_reg (example_state\<lparr>is_symlink := True\<rparr>)"
    "is_symlink (example_state\<lparr>is_symlink := True\<rparr>)"
    by (simp_all add: example_state_def)
  have modes: "\<not> S_ISREG (0xA1FF :: 16 word)" "S_ISLNK (0xA1FF :: 16 word)"
    by (simp_all add: S_ISREG_def S_ISLNK_def)
  have reg: "map_sum id fst (lustre_ns_xattrs_callback example_env 0x81A4 example_state)
               = Inr 13"
    by (simp add: eval_defs)
  note gated = extraction_mode_gated [where s = "example_state\<lparr>is_symlink := True\<rparr>"
                 and env = example_env and pairs = 1 and mode = "0xA1FF"]
  from gated flags(1)
  have hsm: "xattrs_get_hsm example_env 1 (example_state\<lparr>is_symlink := True\<rparr>)
               = Inr (0, example_state\<lparr>is_symlink := True\<rparr>)"
    by blast
  from gated flags(2)
  have layout: "xattrs_get_layout example_env 1 (example_state\<lparr>is_symlink := True\<rparr>)
                  = Inr (0, example_state\<lparr>is_symlink := True\<rparr>)"
    by blast
  from gated modes(2)
  have "lustre_ns_xattrs_callback example_env 0xA1FF (example_state\<lparr>is_symlink := True\<rparr>) =
          and_then (xattrs_get_fid example_env 0
                      (example_state\<lparr>is_symlink := True, is_symlink := S_ISLNK 0xA1FF,
                         is_dir := S_ISDIR 0xA1FF, is_reg := S_ISREG 0xA1FF\<rparr>)) (\<lambda>(n1, s1).
          and_then (xattrs_get_retention example_env s1) (\<lambda>s5.
          Inr (1, s5)))"
    by blast
  then have lnk: "map_sum id fst (lustre_ns_xattrs_callback example_env 0xA1FF
                                    (example_state\<lparr>is_symlink := True\<rparr>)) = Inr 1"
    by (simp add: eval_defs)
  from gated modes(1)
  have "lustre_ns_xattrs_callback example_env 0xA1FF (example_state\<lparr>is_symlink := True\<rparr>) =
     and_then (xattrs_get_fid example_env 0
                 (example_state\<lparr>is_symlink := True, is_symlink := S_ISLNK 0xA1FF,
                    is_dir := S_ISDIR 0xA1FF, is_reg := S_ISREG 0xA1FF\<rparr>)) (\<lambda>(n1, s1).
     and_then (xattrs_get_layout example_env n1 s1) (\<lambda>(n3, s3).
     and_then (xattrs_get_mdt_info example_env (n1 + n3) s3) (\<lambda>(n4, s4).
     and_then (xattrs_get_retention example_env s4) (\<lambda>s5.
     Inr (n1 + n3 + n4, s5)))))"
    by blast
  with hsm layout lnk reg show ?thesis by blast
qed



subsection \<open>The retention pass\<close>

text \<open>
  What the pass does when nothing is in its way: with \<open>errno\<close> at 0 and room in the
  arena, the first pair named \<open>user.ccc_expires_at\<close> whose value is a run of fewer than
  22 decimal digits below \<open>2^64\<close> is replaced, in place, by the integer; every other pair
  stays.
\<close>

lemma isdigit_facts:
  assumes "isdigit c"
  shows "\<not> isspace c" "c \<noteq> 0" "c \<noteq> 0x2D" "c \<noteq> 0x2B"
  using assms by (auto simp: isdigit_def isspace_def word_le_nat_alt)

lemma strtoul_digits:
  assumes "digits \<noteq> []" and "\<forall>c \<in> set digits. isdigit c" and "decimal digits < 2 ^ 64"
  shows "strtoul digits = (word_of_int (decimal digits), length digits, False)"
proof -
  from assms(1) obtain c cs where digits: "digits = c # cs" by (cases digits) auto
  with assms(2) have c: "isdigit c" by simp
  have blanks: "takeWhile isspace digits = []" "dropWhile isspace digits = digits"
    using c by (simp_all add: digits isdigit_facts)
  have all: "takeWhile isdigit digits = digits"
    using assms(2) by (simp add: takeWhile_eq_all_conv)
  have sign: "(case digits of [] \<Rightarrow> False | c # _ \<Rightarrow> c = 0x2D) = False"
    "(case digits of [] \<Rightarrow> False | c # _ \<Rightarrow> c = 0x2B) = False"
    using c by (simp_all add: digits isdigit_facts)
  show ?thesis
    using assms(1,3)
    by (simp add: strtoul_def blanks sign all Let_def)
qed

lemma retention_loop_skip:
  assumes "\<forall>q \<in> set before. pair_key q \<noteq> XATTR_CCC_EXPIRES_AT"
  shows "retention_loop env (before @ rest) i s = retention_loop env rest (i + length before) s"
  using assms by (induction before arbitrary: i) simp_all

lemma retention_rewrites_when_errno_clear:
  assumes "st_errno s = 0" and "sstack_push_fails env (st_pushes s) = None"
      and "st_inode_xattrs s =
             before @ \<lparr>pair_key = XATTR_CCC_EXPIRES_AT, pair_value = Some (Binary digits)\<rparr> # after"
      and "\<forall>q \<in> set before. pair_key q \<noteq> XATTR_CCC_EXPIRES_AT"
      and "digits \<noteq> []" and "length digits < UINT64_MAX_STR_LEN"
      and "\<forall>c \<in> set digits. isdigit c" and "decimal digits < 2 ^ 64"
  shows "xattrs_get_retention env s =
           Inr (s\<lparr>st_pushes := Suc (st_pushes s),
                  st_inode_xattrs :=
                    before @ \<lparr>pair_key = XATTR_CCC_EXPIRES_AT,
                               pair_value = Some (UInt64 (word_of_int (decimal digits)))\<rparr>
                           # after\<rparr>)"
proof -
  have tmp: "takeWhile (\<lambda>c. c \<noteq> 0) digits = digits"
    using assms(7) by (auto simp: takeWhile_eq_all_conv dest: isdigit_facts(2))
  have conv: "strtoul digits = (word_of_int (decimal digits), length digits, False)"
    using assms(5,7,8) by (rule strtoul_digits)
  show ?thesis
    using assms(1,2,5,6)
    by (simp add: xattrs_get_retention_def assms(3) retention_loop_skip [OF assms(4)]
                  tmp conv fill_uint64_pair_def fill_pair_def rbh_sstack_push_def)
qed

text \<open>
  C9 on the code. On the example regular file the retention pair \<open>"123"\<close> becomes the
  integer 123. On the example directory the same pair stays binary: \<open>errno\<close> still
  holds the ENODATA of the striping ioctl when \<open>strtoul\<close> is checked, and the test
  \<open>if (errno || ...)\<close> takes it for a conversion error.
\<close>

theorem retention_skipped_on_stale_errno:
  "map_sum id (st_inode_xattrs \<circ> snd)
     (lustre_ns_xattrs_callback example_env 0x81A4 example_state)
     = Inr [\<lparr>pair_key = ''user.ccc_expires_at'', pair_value = Some (UInt64 123)\<rparr>] \<and>
   map_sum id (st_errno \<circ> snd)
     (lustre_ns_xattrs_callback example_dir_env 0x41ED example_state) = Inr ENODATA \<and>
   map_sum id (st_inode_xattrs \<circ> snd)
     (lustre_ns_xattrs_callback example_dir_env 0x41ED example_state)
     = Inr [\<lparr>pair_key = ''user.ccc_expires_at'',
             pair_value = Some (Binary [0x31, 0x32, 0x33])\<rparr>]"
  by (simp add: eval_defs)

end
